theory Spec2Isabelle
  imports Complex_Main "HOL-Library.Monad_Syntax"
begin

section \<open>GNSS satellites: a shallow embedding of gnss_satellites.cpp\<close>

text \<open>
  Conventions of the embedding.
  \<^item> A C++ \<open>int\<close> is a HOL \<open>int\<close>; where the source can leave the 32-bit range
    (\<open>stoi\<close>, the addition of an index bias) the check is written out. The indices
    of samples and the sizes of vectors are taken to stay below 2^31.
  \<^item> A C++ \<open>double\<close> is a HOL \<open>real\<close>: rounding, infinities and NaN are not modelled.
  \<^item> A \<open>std::vector\<close> is a list. \<open>v.at(i)\<close> with an \<open>int\<close> argument converts the
    argument to \<open>size_t\<close>, so a negative index is out of range like a too large one; the
    exception \<open>std::out_of_range\<close>, like every other exception and every undefined
    behaviour of the source (\<open>front()\<close> or \<open>back()\<close> of an empty container), is the
    result \<open>None\<close>.
\<close>

subsection \<open>Containers\<close>

definition at_idx :: "'a list \<Rightarrow> int \<Rightarrow> 'a option" where
  "at_idx xs i = (if 0 \<le> i \<and> i < int (length xs) then Some (xs ! nat i) else None)"

text \<open>\<open>v.at(i) = x\<close>: the assignment through the checked reference.\<close>

definition set_at :: "'a list \<Rightarrow> int \<Rightarrow> 'a \<Rightarrow> 'a list option" where
  "set_at xs i x = (if 0 \<le> i \<and> i < int (length xs) then Some (xs[nat i := x]) else None)"

definition front_of :: "'a list \<Rightarrow> 'a option" where
  "front_of xs = (case xs of [] \<Rightarrow> None | x # _ \<Rightarrow> Some x)"

definition back_of :: "'a list \<Rightarrow> 'a option" where
  "back_of xs = (if xs = [] then None else Some (last xs))"

text \<open>\<open>v.back() = x\<close>.\<close>

definition set_back :: "'a list \<Rightarrow> 'a \<Rightarrow> 'a list option" where
  "set_back xs x = (if xs = [] then None else Some (butlast xs @ [x]))"

text \<open>\<open>v.resize(n)\<close> with value-initialised new elements, \<open>v.assign(n, x)\<close>.\<close>

definition resize :: "'a list \<Rightarrow> nat \<Rightarrow> 'a \<Rightarrow> 'a list" where
  "resize xs n d = take n xs @ replicate (n - length xs) d"

definition assign :: "nat \<Rightarrow> 'a \<Rightarrow> 'a list" where
  "assign n x = replicate n x"

subsection \<open>The 32-bit integers of the source\<close>

definition INT32_MAX :: int where
  "INT32_MAX = 2147483647"

definition INT32_MIN :: int where
  "INT32_MIN = - 2147483648"

definition in_int32 :: "int \<Rightarrow> bool" where
  "in_int32 v = (INT32_MIN \<le> v \<and> v \<le> INT32_MAX)"

text \<open>Signed addition: an overflow is undefined behaviour, so no result.\<close>

definition add_int32 :: "int \<Rightarrow> int \<Rightarrow> int option" where
  "add_int32 a b = (if in_int32 (a + b) then Some (a + b) else None)"

text \<open>Integer division of C++ truncates towards zero.\<close>

definition cdiv :: "int \<Rightarrow> int \<Rightarrow> int" where
  "cdiv a b = (if (a < 0) = (b < 0) then \<bar>a\<bar> div \<bar>b\<bar> else - (\<bar>a\<bar> div \<bar>b\<bar>))"

subsection \<open>Strings: \<open>std::stoi\<close>, \<open>std::to_string\<close>, \<open>substr\<close>\<close>

definition is_space :: "char \<Rightarrow> bool" where
  "is_space c = ((of_char c :: nat) = 32 \<or> (9 \<le> (of_char c :: nat) \<and> (of_char c :: nat) \<le> 13))"

definition is_digit :: "char \<Rightarrow> bool" where
  "is_digit c = (48 \<le> (of_char c :: nat) \<and> (of_char c :: nat) \<le> 57)"

definition digit_val :: "char \<Rightarrow> nat" where
  "digit_val c = of_char c - 48"

definition digit_char :: "nat \<Rightarrow> char" where
  "digit_char d = char_of (48 + d)"

text \<open>The value of a digit string, most significant digit first.\<close>

fun digits_value :: "nat \<Rightarrow> string \<Rightarrow> nat" where
  "digits_value acc [] = acc"
| "digits_value acc (c # cs) = digits_value (10 * acc + digit_val c) cs"

text \<open>
  \<open>std::stoi(s)\<close> (base 10): leading white space is skipped, one sign is accepted, the
  longest run of digits is converted and what follows is ignored. No digit:
  \<open>std::invalid_argument\<close>; a value outside \<open>int\<close>: \<open>std::out_of_range\<close>.
\<close>

definition stoi :: "string \<Rightarrow> int option" where
  "stoi s =
     (let s1 = dropWhile is_space s;
          neg = (case s1 of [] \<Rightarrow> False | c # _ \<Rightarrow> c = CHR ''-'');
          s2 = (case s1 of [] \<Rightarrow> [] | c # r \<Rightarrow> if c = CHR ''-'' \<or> c = CHR ''+'' then r else s1);
          ds = takeWhile is_digit s2;
          v = (if neg then - int (digits_value 0 ds) else int (digits_value 0 ds))
      in if ds = [] then None else if in_int32 v then Some v else None)"

fun nat_digits :: "nat \<Rightarrow> string" where
  "nat_digits n = (if n < 10 then [digit_char n] else nat_digits (n div 10) @ [digit_char (n mod 10)])"

declare nat_digits.simps [simp del]

definition to_string :: "int \<Rightarrow> string" where
  "to_string i = (if i < 0 then CHR ''-'' # nat_digits (nat (- i)) else nat_digits (nat i))"

text \<open>\<open>s.substr(pos)\<close>: \<open>std::out_of_range\<close> when \<open>pos\<close> is beyond the size.\<close>

definition substr :: "string \<Rightarrow> nat \<Rightarrow> string option" where
  "substr s pos = (if pos \<le> length s then Some (drop pos s) else None)"

subsection \<open>The constellation constants\<close>

definition gps_sat_num :: int where "gps_sat_num = 32"
definition glonass_sat_num :: int where "glonass_sat_num = 26"
definition galileo_sat_num :: int where "galileo_sat_num = 36"
definition beidou_sat_num :: int where "beidou_sat_num = 16"
definition qzss_sat_num :: int where "qzss_sat_num = 7"

definition gps_index_bias :: int where
  "gps_index_bias = - 1"

definition glonass_index_bias :: int where
  "glonass_index_bias = gps_index_bias + gps_sat_num"

definition galileo_index_bias :: int where
  "galileo_index_bias = glonass_index_bias + glonass_sat_num"

definition beidou_index_bias :: int where
  "beidou_index_bias = galileo_index_bias + galileo_sat_num"

definition qzss_index_bias :: int where
  "qzss_index_bias = beidou_index_bias + beidou_sat_num"

definition all_sat_num :: int where
  "all_sat_num = gps_sat_num + glonass_sat_num + galileo_sat_num + beidou_sat_num + qzss_sat_num"

subsection \<open>GnssSatelliteBase: identifiers and flat indices\<close>

text \<open>
  The \<open>switch\<close> on the constellation letter \<open>c\<close>; the number starts at position
  \<open>pos\<close> of the identifier (2 after a leading \<open>P\<close>, 1 otherwise).
\<close>

definition index_of_tag :: "char \<Rightarrow> string \<Rightarrow> nat \<Rightarrow> int option" where
  "index_of_tag c sat_num pos =
     (if c = CHR ''G'' then do { s \<leftarrow> substr sat_num pos; n \<leftarrow> stoi s; add_int32 n gps_index_bias }
      else if c = CHR ''R'' then do { s \<leftarrow> substr sat_num pos; n \<leftarrow> stoi s; add_int32 n glonass_index_bias }
      else if c = CHR ''E'' then do { s \<leftarrow> substr sat_num pos; n \<leftarrow> stoi s; add_int32 n galileo_index_bias }
      else if c = CHR ''C'' then do { s \<leftarrow> substr sat_num pos; n \<leftarrow> stoi s; add_int32 n beidou_index_bias }
      else if c = CHR ''J'' then do { s \<leftarrow> substr sat_num pos; n \<leftarrow> stoi s; add_int32 n qzss_index_bias }
      else Some INT32_MAX)"

definition GetIndexFromId :: "string \<Rightarrow> int option" where
  "GetIndexFromId sat_num =
     do {
       c0 \<leftarrow> front_of sat_num;
       if c0 = CHR ''P'' then do { c1 \<leftarrow> at_idx sat_num 1; index_of_tag c1 sat_num 2 }
       else index_of_tag c0 sat_num 1
     }"

text \<open>One branch of \<open>GetIdFromIndex\<close>: the letter, a \<open>0\<close> below ten, the number.\<close>

definition id_string :: "char \<Rightarrow> int \<Rightarrow> string" where
  "id_string tag n = [tag] @ (if n < 10 then ''0'' else []) @ to_string n"

definition GetIdFromIndex :: "int \<Rightarrow> string" where
  "GetIdFromIndex index =
     (if index < glonass_index_bias then id_string CHR ''G'' (index - gps_index_bias)
      else if index < galileo_index_bias then id_string CHR ''R'' (index - glonass_index_bias)
      else if index < beidou_index_bias then id_string CHR ''E'' (index - galileo_index_bias)
      else if index < qzss_index_bias then id_string CHR ''C'' (index - beidou_index_bias)
      else id_string CHR ''J'' (index - qzss_index_bias))"

subsection \<open>Vectors and the constants of the environment\<close>

type_synonym vec3 = "real \<times> real \<times> real"

definition vec_zero :: vec3 where
  "vec_zero = (0, 0, 0)"

text \<open>\<open>v(i)\<close> and \<open>v[i]\<close> for \<open>i\<close> in 0, 1, 2.\<close>

definition vec_nth :: "vec3 \<Rightarrow> nat \<Rightarrow> real" where
  "vec_nth v i = (case v of (x, y, z) \<Rightarrow> if i = 0 then x else if i = 1 then y else z)"

definition vec_minus :: "vec3 \<Rightarrow> vec3 \<Rightarrow> vec3" where
  "vec_minus a b = (vec_nth a 0 - vec_nth b 0, vec_nth a 1 - vec_nth b 1, vec_nth a 2 - vec_nth b 2)"

definition InnerProduct :: "vec3 \<Rightarrow> vec3 \<Rightarrow> real" where
  "InnerProduct a b = fold (\<lambda>i r. r + vec_nth a i * vec_nth b i) [0, 1, 2] 0"

definition CalcNorm :: "vec3 \<Rightarrow> real" where
  "CalcNorm a = sqrt (fold (\<lambda>i r. r + vec_nth a i * vec_nth a i) [0, 1, 2] 0)"

text \<open>
  Modelled from the spec: \<open>CalcAngleTwoVectors_rad\<close> of the vector library is not among the
  sources. The spec calls its cosine "the cosine of the zenith angle between receiver
  position and line-of-sight to the satellite", so it is the angle between its two
  arguments.
\<close>

definition CalcAngleTwoVectors_rad :: "vec3 \<Rightarrow> vec3 \<Rightarrow> real" where
  "CalcAngleTwoVectors_rad v1 v2 = arccos (InnerProduct v1 v2 / (CalcNorm v1 * CalcNorm v2))"

text \<open>
  The physical constants of \<open>environment::\<close> are declared in a header that is not among
  the sources; the functions that use them take them as a parameter.
\<close>

record environment =
  speed_of_light_m_s :: real
  earth_equatorial_radius_m :: real

subsection \<open>The classes\<close>

record GnssSatelliteBase =
  unix_time_list :: "real list list"
  time_period_list :: "real list list"
  validate :: "bool list"
  nearest_index :: "int list"
  step_width_s :: real
  time_interval :: real
  interpolation_number :: int

record GnssSatellitePosition = GnssSatelliteBase +
  time_series_position_ecef_m :: "vec3 list list"
  time_series_position_eci_m :: "vec3 list list"
  position_ecef_m :: "vec3 list"
  position_eci_m :: "vec3 list"
  ecef :: "vec3 list list"
  eci :: "vec3 list list"

record GnssSatelliteClock = GnssSatelliteBase +
  time_series_clock_offset_m :: "real list list"
  clock_offset_m :: "real list"
  clock_bias :: "real list list"

record GnssSatelliteInformation =
  position :: GnssSatellitePosition
  clock :: GnssSatelliteClock

record GnssSatellites =
  true_info :: GnssSatelliteInformation
  estimate_info :: GnssSatelliteInformation
  is_calc_enabled :: bool
  sats_start_unix_time :: real

datatype GnssFrameDefinition = kEcef | kEci

subsection \<open>Short-circuit operators on fallible operands\<close>

definition and_also :: "bool option \<Rightarrow> bool option \<Rightarrow> bool option" where
  "and_also a b = (case a of None \<Rightarrow> None | Some x \<Rightarrow> if x then b else Some False)"

definition or_else :: "bool \<Rightarrow> bool option \<Rightarrow> bool option" where
  "or_else a b = (if a then Some True else b)"

subsection \<open>Accessors of one track\<close>

definition base_GetNumberOfSatellites :: "'a GnssSatelliteBase_scheme \<Rightarrow> int" where
  "base_GetNumberOfSatellites b = all_sat_num"

definition base_GetWhetherValid :: "'a GnssSatelliteBase_scheme \<Rightarrow> int \<Rightarrow> bool option" where
  "base_GetWhetherValid b gnss_satellite_id =
     (if gnss_satellite_id \<ge> all_sat_num then Some False
      else at_idx (validate b) gnss_satellite_id)"

definition GetPosition_ecef_m :: "GnssSatellitePosition \<Rightarrow> int \<Rightarrow> vec3 option" where
  "GetPosition_ecef_m p gnss_satellite_id =
     (if gnss_satellite_id \<ge> all_sat_num then Some vec_zero
      else at_idx (position_ecef_m p) gnss_satellite_id)"

definition GetPosition_eci_m :: "GnssSatellitePosition \<Rightarrow> int \<Rightarrow> vec3 option" where
  "GetPosition_eci_m p gnss_satellite_id =
     (if gnss_satellite_id \<ge> all_sat_num then Some vec_zero
      else at_idx (position_eci_m p) gnss_satellite_id)"

definition GetSatClock :: "GnssSatelliteClock \<Rightarrow> int \<Rightarrow> real option" where
  "GetSatClock c gnss_satellite_id =
     (if gnss_satellite_id \<ge> all_sat_num then Some 0
      else at_idx (clock_offset_m c) gnss_satellite_id)"

subsection \<open>GnssSatelliteInformation\<close>

definition info_GetNumberOfSatellites :: "GnssSatelliteInformation \<Rightarrow> int" where
  "info_GetNumberOfSatellites t =
     (if base_GetNumberOfSatellites (position t) = base_GetNumberOfSatellites (clock t)
      then base_GetNumberOfSatellites (position t) else 0)"

definition info_GetWhetherValid :: "GnssSatelliteInformation \<Rightarrow> int \<Rightarrow> bool option" where
  "info_GetWhetherValid t gnss_satellite_id =
     do {
       b \<leftarrow> and_also (base_GetWhetherValid (position t) gnss_satellite_id)
                     (base_GetWhetherValid (clock t) gnss_satellite_id);
       if b then Some True else Some False
     }"

definition info_GetSatellitePositionEcef :: "GnssSatelliteInformation \<Rightarrow> int \<Rightarrow> vec3 option" where
  "info_GetSatellitePositionEcef t gnss_satellite_id = GetPosition_ecef_m (position t) gnss_satellite_id"

definition info_GetSatellitePositionEci :: "GnssSatelliteInformation \<Rightarrow> int \<Rightarrow> vec3 option" where
  "info_GetSatellitePositionEci t gnss_satellite_id = GetPosition_eci_m (position t) gnss_satellite_id"

definition info_GetSatelliteClock :: "GnssSatelliteInformation \<Rightarrow> int \<Rightarrow> real option" where
  "info_GetSatelliteClock t gnss_satellite_id = GetSatClock (clock t) gnss_satellite_id"

subsection \<open>GnssSatellites: validity and the accessors of the estimate\<close>

definition GetNumberOfSatellites :: "GnssSatellites \<Rightarrow> int" where
  "GetNumberOfSatellites s = info_GetNumberOfSatellites (estimate_info s)"

definition GetWhetherValid :: "GnssSatellites \<Rightarrow> int \<Rightarrow> bool option" where
  "GetWhetherValid s gnss_satellite_id =
     (if gnss_satellite_id \<ge> GetNumberOfSatellites s then Some False
      else do {
        b \<leftarrow> and_also (info_GetWhetherValid (true_info s) gnss_satellite_id)
                      (info_GetWhetherValid (estimate_info s) gnss_satellite_id);
        if b then Some True else Some False
      })"

text \<open>The guard "gnss_satellite_id is wrong or not valid" that opens every accessor.\<close>

definition wrong_or_not_valid :: "GnssSatellites \<Rightarrow> int \<Rightarrow> bool option" where
  "wrong_or_not_valid s gnss_satellite_id =
     or_else (gnss_satellite_id \<ge> GetNumberOfSatellites s)
             (map_option Not (GetWhetherValid s gnss_satellite_id))"

definition GetSatellitePositionEcef :: "GnssSatellites \<Rightarrow> int \<Rightarrow> vec3 option" where
  "GetSatellitePositionEcef s gnss_satellite_id =
     do {
       w \<leftarrow> wrong_or_not_valid s gnss_satellite_id;
       if w then Some vec_zero else info_GetSatellitePositionEcef (estimate_info s) gnss_satellite_id
     }"

definition GetSatellitePositionEci :: "GnssSatellites \<Rightarrow> int \<Rightarrow> vec3 option" where
  "GetSatellitePositionEci s gnss_satellite_id =
     do {
       w \<leftarrow> wrong_or_not_valid s gnss_satellite_id;
       if w then Some vec_zero else info_GetSatellitePositionEci (estimate_info s) gnss_satellite_id
     }"

definition GetSatelliteClock :: "GnssSatellites \<Rightarrow> int \<Rightarrow> real option" where
  "GetSatelliteClock s gnss_satellite_id =
     do {
       w \<leftarrow> wrong_or_not_valid s gnss_satellite_id;
       if w then Some 0 else info_GetSatelliteClock (estimate_info s) gnss_satellite_id
     }"

subsection \<open>GnssSatellites: the observables\<close>

text \<open>
  \<open>pow(x, 2.0)\<close> is the square. A division by zero (a zero frequency, a right zenith
  angle) is an infinity in the source and 0 in HOL; no statement below relies on it.
\<close>

definition altitude_km :: "environment \<Rightarrow> vec3 \<Rightarrow> real" where
  "altitude_km env rec_position =
     (let earth_hemisphere_km = earth_equatorial_radius_m env / 1000;
          altitude = fold (\<lambda>i a. a + (vec_nth rec_position i) ^ 2) [0, 1, 2] 0;
          altitude = sqrt altitude
      in altitude / 1000 - earth_hemisphere_km)"

definition AddIonosphericDelay ::
    "environment \<Rightarrow> GnssSatellites \<Rightarrow> int \<Rightarrow> vec3 \<Rightarrow> real \<Rightarrow> GnssFrameDefinition \<Rightarrow> real option" where
  "AddIonosphericDelay env s gnss_satellite_id rec_position frequency flag =
     do {
       w \<leftarrow> wrong_or_not_valid s gnss_satellite_id;
       if w then Some 0
       else
         let altitude = altitude_km env rec_position in
         if altitude \<ge> 1000 then Some 0
         else do {
           gnss_position \<leftarrow>
             (case flag of
                kEcef \<Rightarrow> info_GetSatellitePositionEcef (true_info s) gnss_satellite_id
              | kEci \<Rightarrow> info_GetSatellitePositionEci (true_info s) gnss_satellite_id);
           let angle_rad = CalcAngleTwoVectors_rad rec_position (vec_minus gnss_position rec_position);
               default_delay = 20;
               delay = default_delay * (1000 - altitude) / 1000 / cos angle_rad;
               default_frequency = 1500;
               delay = delay * (default_frequency / frequency) ^ 2
           in Some delay
         }
     }"

text \<open>The position of the satellite that the delay uses: the true one, in the frame of \<open>flag\<close>.\<close>

definition true_position :: "GnssSatellites \<Rightarrow> int \<Rightarrow> GnssFrameDefinition \<Rightarrow> vec3 option" where
  "true_position s gnss_satellite_id flag =
     (case flag of
        kEcef \<Rightarrow> info_GetSatellitePositionEcef (true_info s) gnss_satellite_id
      | kEci \<Rightarrow> info_GetSatellitePositionEci (true_info s) gnss_satellite_id)"

text \<open>
  The delay as the specification words it: 20 m, scaled by \<open>(1000 - altitude) / 1000\<close>,
  divided by the cosine of the zenith angle, times \<open>(1500 / frequency)\<close> squared.
\<close>

definition specified_delay :: "real \<Rightarrow> real \<Rightarrow> real \<Rightarrow> real" where
  "specified_delay altitude angle_rad frequency =
     20 * ((1000 - altitude) / 1000) / cos angle_rad * (1500 / frequency)\<^sup>2"

text \<open>The range and clock part shared by the four observables.\<close>

definition geometric_range :: "vec3 \<Rightarrow> vec3 \<Rightarrow> real" where
  "geometric_range rec_position gnss_position =
     sqrt (fold (\<lambda>i res. res + (vec_nth rec_position i - vec_nth gnss_position i) ^ 2) [0, 1, 2] 0)"

definition GetPseudoRangeECEF ::
    "environment \<Rightarrow> GnssSatellites \<Rightarrow> int \<Rightarrow> vec3 \<Rightarrow> real \<Rightarrow> real \<Rightarrow> real option" where
  "GetPseudoRangeECEF env s gnss_satellite_id rec_position rec_clock frequency =
     do {
       w \<leftarrow> wrong_or_not_valid s gnss_satellite_id;
       if w then Some 0
       else do {
         gnss_position \<leftarrow> info_GetSatellitePositionEcef (true_info s) gnss_satellite_id;
         let res = geometric_range rec_position gnss_position;
         sat_clock \<leftarrow> info_GetSatelliteClock (true_info s) gnss_satellite_id;
         let res = res + (rec_clock - sat_clock);
         ionospheric_delay \<leftarrow> AddIonosphericDelay env s gnss_satellite_id rec_position frequency kEcef;
         Some (res + ionospheric_delay)
       }
     }"

definition GetPseudoRangeECI ::
    "environment \<Rightarrow> GnssSatellites \<Rightarrow> int \<Rightarrow> vec3 \<Rightarrow> real \<Rightarrow> real \<Rightarrow> real option" where
  "GetPseudoRangeECI env s gnss_satellite_id rec_position rec_clock frequency =
     do {
       w \<leftarrow> wrong_or_not_valid s gnss_satellite_id;
       if w then Some 0
       else do {
         gnss_position \<leftarrow> info_GetSatellitePositionEci (true_info s) gnss_satellite_id;
         let res = geometric_range rec_position gnss_position;
         sat_clock \<leftarrow> info_GetSatelliteClock (true_info s) gnss_satellite_id;
         let res = res + (rec_clock - sat_clock);
         ionospheric_delay \<leftarrow> AddIonosphericDelay env s gnss_satellite_id rec_position frequency kEci;
         Some (res + ionospheric_delay)
       }
     }"

text \<open>The conversion of a range to cycles and the split into fraction and integer part.\<close>

definition cycles_of_range :: "environment \<Rightarrow> real \<Rightarrow> real \<Rightarrow> real \<times> real" where
  "cycles_of_range env res frequency =
     (let lambda = speed_of_light_m_s env * (1 / 1000000) / frequency;
          cycle = res / lambda;
          bias = of_int (floor cycle)
      in (cycle - bias, bias))"

definition GetCarrierPhaseECEF ::
    "environment \<Rightarrow> GnssSatellites \<Rightarrow> int \<Rightarrow> vec3 \<Rightarrow> real \<Rightarrow> real \<Rightarrow> (real \<times> real) option" where
  "GetCarrierPhaseECEF env s gnss_satellite_id rec_position rec_clock frequency =
     do {
       w \<leftarrow> wrong_or_not_valid s gnss_satellite_id;
       if w then Some (0, 0)
       else do {
         gnss_position \<leftarrow> info_GetSatellitePositionEcef (true_info s) gnss_satellite_id;
         let res = geometric_range rec_position gnss_position;
         sat_clock \<leftarrow> info_GetSatelliteClock (true_info s) gnss_satellite_id;
         let res = res + (rec_clock - sat_clock);
         ionospheric_delay \<leftarrow> AddIonosphericDelay env s gnss_satellite_id rec_position frequency kEcef;
         Some (cycles_of_range env (res - ionospheric_delay) frequency)
       }
     }"

definition GetCarrierPhaseECI ::
    "environment \<Rightarrow> GnssSatellites \<Rightarrow> int \<Rightarrow> vec3 \<Rightarrow> real \<Rightarrow> real \<Rightarrow> (real \<times> real) option" where
  "GetCarrierPhaseECI env s gnss_satellite_id rec_position rec_clock frequency =
     do {
       w \<leftarrow> wrong_or_not_valid s gnss_satellite_id;
       if w then Some (0, 0)
       else do {
         gnss_position \<leftarrow> info_GetSatellitePositionEci (true_info s) gnss_satellite_id;
         let res = geometric_range rec_position gnss_position;
         sat_clock \<leftarrow> info_GetSatelliteClock (true_info s) gnss_satellite_id;
         let res = res + (rec_clock - sat_clock);
         ionospheric_delay \<leftarrow> AddIonosphericDelay env s gnss_satellite_id rec_position frequency kEci;
         Some (cycles_of_range env (res - ionospheric_delay) frequency)
       }
     }"

subsection \<open>Loops and library routines of the interpolation\<close>

text \<open>A \<open>for\<close> loop over the values \<open>is\<close> whose body may throw.\<close>

fun for_each :: "('i \<Rightarrow> 's \<Rightarrow> 's option) \<Rightarrow> 'i list \<Rightarrow> 's \<Rightarrow> 's option" where
  "for_each body [] s = Some s"
| "for_each body (i # is) s = (case body i s of None \<Rightarrow> None | Some s' \<Rightarrow> for_each body is s')"

text \<open>The satellite loop \<open>for (id = 0; id < all_sat_num_; ++id)\<close>.\<close>

definition sat_ids :: "int list" where
  "sat_ids = [0..all_sat_num - 1]"

text \<open>The remainder of C++, with the sign of the dividend.\<close>

definition crem :: "int \<Rightarrow> int \<Rightarrow> int" where
  "crem a b = a - b * cdiv a b"

text \<open>
  \<open>std::lower_bound(begin, end, v) - begin\<close>. The routine is not among the sources; this
  is the binary search of the common implementations of the standard library (libstdc++,
  libc++): the range of \<open>len\<close> elements from \<open>first\<close> is halved until it is empty,
  and the element that is read is always inside the range. On time stamps in ascending
  order the result is the number of elements less than \<open>v\<close>; on any other series it is
  the index that the search reaches.
\<close>

function lower_bound_from :: "real list \<Rightarrow> real \<Rightarrow> nat \<Rightarrow> nat \<Rightarrow> nat" where
  "lower_bound_from xs v first len =
     (if len = 0 then first
      else let half = len div 2; middle = first + half
           in if xs ! middle < v then lower_bound_from xs v (middle + 1) (len - half - 1)
              else lower_bound_from xs v first half)"
  by pat_completeness auto
termination
  by (relation "measure (\<lambda>(xs, v, first, len). len)") auto

declare lower_bound_from.simps [simp del]

definition lower_bound :: "real list \<Rightarrow> real \<Rightarrow> int" where
  "lower_bound xs v = int (lower_bound_from xs v 0 (length xs))"

text \<open>The offsets \<open>j\<close> of \<open>for (j = -n / 2; j < (n + 1) / 2; ++j)\<close>.\<close>

definition window_offsets :: "int \<Rightarrow> int list" where
  "window_offsets n = [cdiv (- n) 2..cdiv (n + 1) 2 - 1]"

definition vec_add_scaled :: "vec3 \<Rightarrow> real \<Rightarrow> vec3 \<Rightarrow> vec3" where
  "vec_add_scaled res k v =
     (vec_nth res 0 + k * vec_nth v 0, vec_nth res 1 + k * vec_nth v 1, vec_nth res 2 + k * vec_nth v 2)"

text \<open>
  The inner loop of the trigonometric interpolation: the weight \<open>t_k\<close> of sample \<open>i\<close>.
  The constant \<open>libra::tau\<close> is \<open>2 * pi\<close>.
\<close>

definition trigonometric_weight :: "real list \<Rightarrow> real \<Rightarrow> nat \<Rightarrow> real" where
  "trigonometric_weight time_vector time i =
     (let w = 2 * pi / (24 * 60 * 60) * (103 / 100)
      in fold (\<lambda>j t_k. if i = j then t_k
                        else t_k * (sin (w * (time - time_vector ! j) / 2)
                                    / sin (w * (time_vector ! i - time_vector ! j) / 2)))
           [0..<length time_vector] 1)"

definition TrigonometricInterpolation :: "real list \<Rightarrow> vec3 list \<Rightarrow> real \<Rightarrow> vec3 option" where
  "TrigonometricInterpolation time_vector values time =
     for_each (\<lambda>i res. do { v \<leftarrow> at_idx values (int i);
                            Some (vec_add_scaled res (trigonometric_weight time_vector time i) v) })
       [0..<length time_vector] vec_zero"

text \<open>The inner loop of the Lagrange interpolation: the weight \<open>l_i\<close> of sample \<open>i\<close>.\<close>

definition lagrange_weight :: "real list \<Rightarrow> real \<Rightarrow> nat \<Rightarrow> real" where
  "lagrange_weight time_vector time i =
     fold (\<lambda>j l_i. if i = j then l_i
                    else l_i * ((time - time_vector ! j) / (time_vector ! i - time_vector ! j)))
       [0..<length time_vector] 1"

definition LagrangeInterpolation :: "real list \<Rightarrow> real list \<Rightarrow> real \<Rightarrow> real option" where
  "LagrangeInterpolation time_vector values time =
     for_each (\<lambda>i res. do { v \<leftarrow> at_idx values (int i);
                            Some (res + v * lagrange_weight time_vector time i) })
       [0..<length time_vector] 0"

text \<open>\<open>validate_.at(id) = false; continue;\<close>\<close>

definition invalidate :: "'a GnssSatelliteBase_scheme \<Rightarrow> int \<Rightarrow> 'a GnssSatelliteBase_scheme option" where
  "invalidate s gnss_satellite_id =
     do { v \<leftarrow> set_at (validate s) gnss_satellite_id False; Some (s\<lparr>validate := v\<rparr>) }"

subsection \<open>GnssSatellitePosition: SetUp and Update\<close>

text \<open>One round of the loop that fills the window of a satellite around \<open>index\<close>.\<close>

definition Position_push_sample ::
    "int \<Rightarrow> int \<Rightarrow> int \<Rightarrow> GnssSatellitePosition \<Rightarrow> GnssSatellitePosition option" where
  "Position_push_sample gnss_satellite_id index j s =
     do {
       utl \<leftarrow> at_idx (unix_time_list s) gnss_satellite_id;
       let now_index = index + j;
       if now_index < 0 \<or> now_index \<ge> int (length utl) then Some s
       else do {
         t \<leftarrow> at_idx utl now_index;
         tp \<leftarrow> at_idx (time_period_list s) gnss_satellite_id;
         tpl \<leftarrow> set_at (time_period_list s) gnss_satellite_id (tp @ [t]);
         series_ecef \<leftarrow> at_idx (time_series_position_ecef_m s) gnss_satellite_id;
         p_ecef \<leftarrow> at_idx series_ecef now_index;
         w_ecef \<leftarrow> at_idx (ecef s) gnss_satellite_id;
         ecef' \<leftarrow> set_at (ecef s) gnss_satellite_id (w_ecef @ [p_ecef]);
         series_eci \<leftarrow> at_idx (time_series_position_eci_m s) gnss_satellite_id;
         p_eci \<leftarrow> at_idx series_eci now_index;
         w_eci \<leftarrow> at_idx (eci s) gnss_satellite_id;
         eci' \<leftarrow> set_at (eci s) gnss_satellite_id (w_eci @ [p_eci]);
         Some (s\<lparr>time_period_list := tpl, ecef := ecef', eci := eci'\<rparr>)
       }
     }"

definition Position_build_window :: "int \<Rightarrow> int \<Rightarrow> GnssSatellitePosition \<Rightarrow> GnssSatellitePosition option" where
  "Position_build_window gnss_satellite_id index s =
     for_each (Position_push_sample gnss_satellite_id index) (window_offsets (interpolation_number s)) s"

text \<open>
  The end of the loop body, the same text in \<open>SetUp\<close> and \<open>Update\<close>: the check of the
  length of the period (three missing samples are allowed), the flag, and the position, the
  stored sample when the time is within 1e-4 s of it and the interpolation otherwise.
\<close>

definition Position_evaluate ::
    "real \<Rightarrow> int \<Rightarrow> int \<Rightarrow> real \<Rightarrow> GnssSatellitePosition \<Rightarrow> GnssSatellitePosition option" where
  "Position_evaluate unix_time gnss_satellite_id index nearest_unixtime s =
     do {
       tp \<leftarrow> at_idx (time_period_list s) gnss_satellite_id;
       b \<leftarrow> back_of tp;
       f \<leftarrow> front_of tp;
       let time_period_length = b - f;
       if time_period_length > time_interval s * of_int (interpolation_number s - 1 + 3) + 1 / 10000
       then invalidate s gnss_satellite_id
       else do {
         v \<leftarrow> set_at (validate s) gnss_satellite_id True;
         let s = s\<lparr>validate := v\<rparr>;
         if \<bar>unix_time - nearest_unixtime\<bar> < 1 / 10000 then do {
           series_ecef \<leftarrow> at_idx (time_series_position_ecef_m s) gnss_satellite_id;
           p_ecef \<leftarrow> at_idx series_ecef index;
           pos_ecef \<leftarrow> set_at (position_ecef_m s) gnss_satellite_id p_ecef;
           series_eci \<leftarrow> at_idx (time_series_position_eci_m s) gnss_satellite_id;
           p_eci \<leftarrow> at_idx series_eci index;
           pos_eci \<leftarrow> set_at (position_eci_m s) gnss_satellite_id p_eci;
           Some (s\<lparr>position_ecef_m := pos_ecef, position_eci_m := pos_eci\<rparr>)
         } else do {
           w_ecef \<leftarrow> at_idx (ecef s) gnss_satellite_id;
           p_ecef \<leftarrow> TrigonometricInterpolation tp w_ecef unix_time;
           pos_ecef \<leftarrow> set_at (position_ecef_m s) gnss_satellite_id p_ecef;
           w_eci \<leftarrow> at_idx (eci s) gnss_satellite_id;
           p_eci \<leftarrow> TrigonometricInterpolation tp w_eci unix_time;
           pos_eci \<leftarrow> set_at (position_eci_m s) gnss_satellite_id p_eci;
           Some (s\<lparr>position_ecef_m := pos_ecef, position_eci_m := pos_eci\<rparr>)
         }
       }
     }"

text \<open>The body of the satellite loop of \<open>GnssSatellitePosition::SetUp\<close>.\<close>

definition Position_SetUp_sat :: "real \<Rightarrow> int \<Rightarrow> GnssSatellitePosition \<Rightarrow> GnssSatellitePosition option" where
  "Position_SetUp_sat start_unix_time gnss_satellite_id s =
     do {
       utl \<leftarrow> at_idx (unix_time_list s) gnss_satellite_id;
       if utl = [] then invalidate s gnss_satellite_id
       else
         let index = lower_bound utl start_unix_time in
         if index = int (length utl) then do {
           ni \<leftarrow> set_at (nearest_index s) gnss_satellite_id index;
           invalidate (s\<lparr>nearest_index := ni\<rparr>) gnss_satellite_id
         } else do {
           nearest_unixtime \<leftarrow> at_idx utl index;
           index \<leftarrow>
             (if crem (interpolation_number s) 2 \<noteq> 0 \<and> index \<noteq> 0 then do {
                pre_time \<leftarrow> at_idx utl (index - 1);
                Some (if \<bar>start_unix_time - pre_time\<bar> < \<bar>start_unix_time - nearest_unixtime\<bar>
                      then index - 1 else index)
              } else Some index);
           ni \<leftarrow> set_at (nearest_index s) gnss_satellite_id index;
           let s = s\<lparr>nearest_index := ni\<rparr>;
           nearest_unixtime \<leftarrow> at_idx utl index;
           if \<bar>start_unix_time - nearest_unixtime\<bar> > time_interval s then invalidate s gnss_satellite_id
           else do {
             s \<leftarrow> Position_build_window gnss_satellite_id index s;
             tp \<leftarrow> at_idx (time_period_list s) gnss_satellite_id;
             if int (length tp) \<noteq> interpolation_number s then invalidate s gnss_satellite_id
             else Position_evaluate start_unix_time gnss_satellite_id index nearest_unixtime s
           }
         }
     }"

definition Position_SetUp :: "GnssSatellitePosition \<Rightarrow> real \<Rightarrow> real \<Rightarrow> GnssSatellitePosition option" where
  "Position_SetUp s start_unix_time step_width =
     (let n = nat all_sat_num
      in for_each (Position_SetUp_sat start_unix_time) sat_ids
           (s\<lparr>step_width_s := step_width,
               position_ecef_m := assign n vec_zero,
               position_eci_m := assign n vec_zero,
               validate := assign n False,
               nearest_index := resize (nearest_index s) n 0,
               time_period_list := resize (time_period_list s) n [],
               ecef := resize (ecef s) n [],
               eci := resize (eci s) n []\<rparr>))"

text \<open>
  The step of \<open>Update\<close> that moves the window: when the next sample is closer to the
  current time than the nearest one, the index advances by one and the window is rebuilt.
\<close>

definition Position_advance ::
    "real \<Rightarrow> int \<Rightarrow> real list \<Rightarrow> int \<Rightarrow> GnssSatellitePosition \<Rightarrow> (int \<times> GnssSatellitePosition) option" where
  "Position_advance current_unix_time gnss_satellite_id utl index s =
     (if index + 1 < int (length utl) then do {
        pre_unix \<leftarrow> at_idx utl index;
        post_unix \<leftarrow> at_idx utl (index + 1);
        if \<bar>current_unix_time - post_unix\<bar> < \<bar>current_unix_time - pre_unix\<bar> then do {
          let index = index + 1;
          ni \<leftarrow> set_at (nearest_index s) gnss_satellite_id index;
          tpl \<leftarrow> set_at (time_period_list s) gnss_satellite_id [];
          ecef' \<leftarrow> set_at (ecef s) gnss_satellite_id [];
          eci' \<leftarrow> set_at (eci s) gnss_satellite_id [];
          s \<leftarrow> Position_build_window gnss_satellite_id index
                 (s\<lparr>nearest_index := ni, time_period_list := tpl, ecef := ecef', eci := eci'\<rparr>);
          Some (index, s)
        } else Some (index, s)
      } else Some (index, s))"

text \<open>The body of the satellite loop of \<open>GnssSatellitePosition::Update\<close>.\<close>

definition Position_Update_sat :: "real \<Rightarrow> int \<Rightarrow> GnssSatellitePosition \<Rightarrow> GnssSatellitePosition option" where
  "Position_Update_sat current_unix_time gnss_satellite_id s =
     do {
       utl \<leftarrow> at_idx (unix_time_list s) gnss_satellite_id;
       if utl = [] then invalidate s gnss_satellite_id
       else do {
         index \<leftarrow> at_idx (nearest_index s) gnss_satellite_id;
         if index = int (length utl) then invalidate s gnss_satellite_id
         else do {
           (index, s) \<leftarrow> Position_advance current_unix_time gnss_satellite_id utl index s;
           nearest_unix_time \<leftarrow> at_idx utl index;
           if \<bar>current_unix_time - nearest_unix_time\<bar> > time_interval s then invalidate s gnss_satellite_id
           else do {
             tp \<leftarrow> at_idx (time_period_list s) gnss_satellite_id;
             if int (length tp) \<noteq> interpolation_number s then invalidate s gnss_satellite_id
             else Position_evaluate current_unix_time gnss_satellite_id index nearest_unix_time s
           }
         }
       }
     }"

definition Position_Update :: "GnssSatellitePosition \<Rightarrow> real \<Rightarrow> GnssSatellitePosition option" where
  "Position_Update s current_unix_time = for_each (Position_Update_sat current_unix_time) sat_ids s"

subsection \<open>GnssSatelliteClock: SetUp and Update\<close>

definition Clock_push_sample ::
    "int \<Rightarrow> int \<Rightarrow> int \<Rightarrow> GnssSatelliteClock \<Rightarrow> GnssSatelliteClock option" where
  "Clock_push_sample gnss_satellite_id index j s =
     do {
       utl \<leftarrow> at_idx (unix_time_list s) gnss_satellite_id;
       let now_index = index + j;
       if now_index < 0 \<or> now_index \<ge> int (length utl) then Some s
       else do {
         t \<leftarrow> at_idx utl now_index;
         tp \<leftarrow> at_idx (time_period_list s) gnss_satellite_id;
         tpl \<leftarrow> set_at (time_period_list s) gnss_satellite_id (tp @ [t]);
         series \<leftarrow> at_idx (time_series_clock_offset_m s) gnss_satellite_id;
         c \<leftarrow> at_idx series now_index;
         w \<leftarrow> at_idx (clock_bias s) gnss_satellite_id;
         cb \<leftarrow> set_at (clock_bias s) gnss_satellite_id (w @ [c]);
         Some (s\<lparr>time_period_list := tpl, clock_bias := cb\<rparr>)
       }
     }"

definition Clock_build_window :: "int \<Rightarrow> int \<Rightarrow> GnssSatelliteClock \<Rightarrow> GnssSatelliteClock option" where
  "Clock_build_window gnss_satellite_id index s =
     for_each (Clock_push_sample gnss_satellite_id index) (window_offsets (interpolation_number s)) s"

text \<open>
  The end of the loop body of the clock, the same text in \<open>SetUp\<close> and \<open>Update\<close>: the
  stricter check of the length of the period, the flag, and the clock offset.
\<close>

definition Clock_evaluate ::
    "real \<Rightarrow> int \<Rightarrow> int \<Rightarrow> real \<Rightarrow> GnssSatelliteClock \<Rightarrow> GnssSatelliteClock option" where
  "Clock_evaluate unix_time gnss_satellite_id index nearest_unixtime s =
     do {
       tp \<leftarrow> at_idx (time_period_list s) gnss_satellite_id;
       b \<leftarrow> back_of tp;
       f \<leftarrow> front_of tp;
       let time_period_length = b - f;
       if time_period_length > time_interval s * of_int (interpolation_number s - 1) + 1 / 10000
       then invalidate s gnss_satellite_id
       else do {
         v \<leftarrow> set_at (validate s) gnss_satellite_id True;
         let s = s\<lparr>validate := v\<rparr>;
         if \<bar>unix_time - nearest_unixtime\<bar> < 1 / 10000 then do {
           series \<leftarrow> at_idx (time_series_clock_offset_m s) gnss_satellite_id;
           c \<leftarrow> at_idx series index;
           co \<leftarrow> set_at (clock_offset_m s) gnss_satellite_id c;
           Some (s\<lparr>clock_offset_m := co\<rparr>)
         } else do {
           w \<leftarrow> at_idx (clock_bias s) gnss_satellite_id;
           c \<leftarrow> LagrangeInterpolation tp w unix_time;
           co \<leftarrow> set_at (clock_offset_m s) gnss_satellite_id c;
           Some (s\<lparr>clock_offset_m := co\<rparr>)
         }
       }
     }"

text \<open>The body of the satellite loop of \<open>GnssSatelliteClock::SetUp\<close>.\<close>

definition Clock_SetUp_sat :: "real \<Rightarrow> int \<Rightarrow> GnssSatelliteClock \<Rightarrow> GnssSatelliteClock option" where
  "Clock_SetUp_sat start_unix_time gnss_satellite_id s =
     do {
       utl \<leftarrow> at_idx (unix_time_list s) gnss_satellite_id;
       if utl = [] then invalidate s gnss_satellite_id
       else
         let index = lower_bound utl start_unix_time in
         if index = int (length utl) then do {
           s \<leftarrow> invalidate s gnss_satellite_id;
           ni \<leftarrow> set_at (nearest_index s) gnss_satellite_id index;
           Some (s\<lparr>nearest_index := ni\<rparr>)
         } else do {
           nearest_unixtime \<leftarrow> at_idx utl index;
           index \<leftarrow>
             (if crem (interpolation_number s) 2 \<noteq> 0 \<and> index \<noteq> 0 then do {
                pre_time \<leftarrow> at_idx utl (index - 1);
                Some (if \<bar>start_unix_time - pre_time\<bar> < \<bar>start_unix_time - nearest_unixtime\<bar>
                      then index - 1 else index)
              } else Some index);
           ni \<leftarrow> set_at (nearest_index s) gnss_satellite_id index;
           let s = s\<lparr>nearest_index := ni\<rparr>;
           nearest_unixtime \<leftarrow> at_idx utl index;
           if \<bar>start_unix_time - nearest_unixtime\<bar> > time_interval s then invalidate s gnss_satellite_id
           else do {
             s \<leftarrow> Clock_build_window gnss_satellite_id index s;
             tp \<leftarrow> at_idx (time_period_list s) gnss_satellite_id;
             if int (length tp) \<noteq> interpolation_number s then invalidate s gnss_satellite_id
             else Clock_evaluate start_unix_time gnss_satellite_id index nearest_unixtime s
           }
         }
     }"

definition Clock_SetUp :: "GnssSatelliteClock \<Rightarrow> real \<Rightarrow> real \<Rightarrow> GnssSatelliteClock option" where
  "Clock_SetUp s start_unix_time step_width =
     (let n = nat all_sat_num
      in for_each (Clock_SetUp_sat start_unix_time) sat_ids
           (s\<lparr>step_width_s := step_width,
               clock_offset_m := resize (clock_offset_m s) n 0,
               validate := assign n False,
               nearest_index := resize (nearest_index s) n 0,
               time_period_list := resize (time_period_list s) n [],
               clock_bias := resize (clock_bias s) n []\<rparr>))"

definition Clock_advance ::
    "real \<Rightarrow> int \<Rightarrow> real list \<Rightarrow> int \<Rightarrow> GnssSatelliteClock \<Rightarrow> (int \<times> GnssSatelliteClock) option" where
  "Clock_advance current_unix_time gnss_satellite_id utl index s =
     (if index + 1 < int (length utl) then do {
        pre_unix \<leftarrow> at_idx utl index;
        post_unix \<leftarrow> at_idx utl (index + 1);
        if \<bar>current_unix_time - post_unix\<bar> < \<bar>current_unix_time - pre_unix\<bar> then do {
          let index = index + 1;
          ni \<leftarrow> set_at (nearest_index s) gnss_satellite_id index;
          tpl \<leftarrow> set_at (time_period_list s) gnss_satellite_id [];
          cb \<leftarrow> set_at (clock_bias s) gnss_satellite_id [];
          s \<leftarrow> Clock_build_window gnss_satellite_id index
                 (s\<lparr>nearest_index := ni, time_period_list := tpl, clock_bias := cb\<rparr>);
          Some (index, s)
        } else Some (index, s)
      } else Some (index, s))"

text \<open>
  The body of the satellite loop of \<open>GnssSatelliteClock::Update\<close>; the number of samples
  is checked before the distance to the nearest one.
\<close>

definition Clock_Update_sat :: "real \<Rightarrow> int \<Rightarrow> GnssSatelliteClock \<Rightarrow> GnssSatelliteClock option" where
  "Clock_Update_sat current_unix_time gnss_satellite_id s =
     do {
       utl \<leftarrow> at_idx (unix_time_list s) gnss_satellite_id;
       if utl = [] then invalidate s gnss_satellite_id
       else do {
         index \<leftarrow> at_idx (nearest_index s) gnss_satellite_id;
         if index = int (length utl) then invalidate s gnss_satellite_id
         else do {
           (index, s) \<leftarrow> Clock_advance current_unix_time gnss_satellite_id utl index s;
           tp \<leftarrow> at_idx (time_period_list s) gnss_satellite_id;
           if int (length tp) \<noteq> interpolation_number s then invalidate s gnss_satellite_id
           else do {
             nearest_unix_time \<leftarrow> at_idx utl index;
             if \<bar>current_unix_time - nearest_unix_time\<bar> > time_interval s then invalidate s gnss_satellite_id
             else Clock_evaluate current_unix_time gnss_satellite_id index nearest_unix_time s
           }
         }
       }
     }"

definition Clock_Update :: "GnssSatelliteClock \<Rightarrow> real \<Rightarrow> GnssSatelliteClock option" where
  "Clock_Update s current_unix_time = for_each (Clock_Update_sat current_unix_time) sat_ids s"

subsection \<open>GnssSatelliteInformation: SetUp and Update\<close>

definition info_SetUp :: "GnssSatelliteInformation \<Rightarrow> real \<Rightarrow> real \<Rightarrow> GnssSatelliteInformation option" where
  "info_SetUp t start_unix_time step_width =
     do {
       p \<leftarrow> Position_SetUp (position t) start_unix_time step_width;
       c \<leftarrow> Clock_SetUp (clock t) start_unix_time step_width;
       Some (t\<lparr>position := p, clock := c\<rparr>)
     }"

definition info_Update :: "GnssSatelliteInformation \<Rightarrow> real \<Rightarrow> GnssSatelliteInformation option" where
  "info_Update t current_unix_time =
     do {
       p \<leftarrow> Position_Update (position t) current_unix_time;
       c \<leftarrow> Clock_Update (clock t) current_unix_time;
       Some (t\<lparr>position := p, clock := c\<rparr>)
     }"

subsection \<open>Ingestion: the data loops of Initialize\<close>

text \<open>
  The model of the ingestion starts after the standard library: a data line is given as
  the values that \<open>istringstream\<close>, \<open>stoi\<close>, \<open>stod\<close>, \<open>mktime\<close> and \<open>gstime\<close>
  produce from its text. An epoch line is its unix time (\<open>mktime\<close> returns whole seconds)
  and its sidereal angle; a satellite line is its first token and the numbers of the four
  tokens that follow (x, y, z in km and the clock in microseconds). A page is the sampling
  interval and the satellite count of its header and the data lines from \<open>start_line\<close>
  up to \<open>end_line\<close>, so the header arithmetic that selects them is not part of the model.
  A line of the wrong kind for its position has no result.
\<close>

datatype sp3_line = EpochLine int real | SatelliteLine string "real list"

record sp3_page =
  header_time_interval :: real
  header_num_of_sat :: int
  data_lines :: "sp3_line list"

definition nan99 :: real where
  "nan99 = 999999999999 / 1000000"

text \<open>The "Set data" step of the position: overwrite the last sample or append.\<close>

definition Position_store ::
    "real \<Rightarrow> int \<Rightarrow> vec3 \<Rightarrow> vec3 \<Rightarrow> GnssSatellitePosition \<Rightarrow> GnssSatellitePosition option" where
  "Position_store unix_time gnss_satellite_id ecef_position_m eci_position s =
     do {
       utl \<leftarrow> at_idx (unix_time_list s) gnss_satellite_id;
       if utl \<noteq> [] \<and> \<bar>unix_time - last utl\<bar> < 1 then do {
         utl' \<leftarrow> set_back utl unix_time;
         times \<leftarrow> set_at (unix_time_list s) gnss_satellite_id utl';
         series_ecef \<leftarrow> at_idx (time_series_position_ecef_m s) gnss_satellite_id;
         series_ecef' \<leftarrow> set_back series_ecef ecef_position_m;
         all_ecef \<leftarrow> set_at (time_series_position_ecef_m s) gnss_satellite_id series_ecef';
         series_eci \<leftarrow> at_idx (time_series_position_eci_m s) gnss_satellite_id;
         series_eci' \<leftarrow> set_back series_eci eci_position;
         all_eci \<leftarrow> set_at (time_series_position_eci_m s) gnss_satellite_id series_eci';
         Some (s\<lparr>unix_time_list := times, time_series_position_ecef_m := all_ecef,
                  time_series_position_eci_m := all_eci\<rparr>)
       } else do {
         times \<leftarrow> set_at (unix_time_list s) gnss_satellite_id (utl @ [unix_time]);
         series_ecef \<leftarrow> at_idx (time_series_position_ecef_m s) gnss_satellite_id;
         all_ecef \<leftarrow> set_at (time_series_position_ecef_m s) gnss_satellite_id
                      (series_ecef @ [ecef_position_m]);
         series_eci \<leftarrow> at_idx (time_series_position_eci_m s) gnss_satellite_id;
         all_eci \<leftarrow> set_at (time_series_position_eci_m s) gnss_satellite_id
                     (series_eci @ [eci_position]);
         Some (s\<lparr>unix_time_list := times, time_series_position_ecef_m := all_ecef,
                  time_series_position_eci_m := all_eci\<rparr>)
       }
     }"

text \<open>The variables of the data loop of the position, and the object.\<close>

record position_loop =
  pl_unix_time :: real
  pl_cos :: real
  pl_sin :: real
  pl_start_unix_time :: real
  pl_end_unix_time :: real
  pl_object :: GnssSatellitePosition

text \<open>
  The three coordinates of a satellite line: none when one of them is the sentinel
  999999.999999, and the later ones are then not read.
\<close>

definition read_coordinates :: "real list \<Rightarrow> vec3 option option" where
  "read_coordinates numbers =
     do {
       x \<leftarrow> at_idx numbers 0;
       if \<bar>x - nan99\<bar> < 1 then Some None
       else do {
         y \<leftarrow> at_idx numbers 1;
         if \<bar>y - nan99\<bar> < 1 then Some None
         else do {
           z \<leftarrow> at_idx numbers 2;
           if \<bar>z - nan99\<bar> < 1 then Some None else Some (Some (x, y, z))
         }
       }
     }"

text \<open>One round of the data loop of \<open>GnssSatellitePosition::Initialize\<close>.\<close>

definition Position_read_line :: "int \<Rightarrow> nat \<times> sp3_line \<Rightarrow> position_loop \<Rightarrow> position_loop option" where
  "Position_read_line num_of_sat il st =
     (case il of (i, line) \<Rightarrow>
        if num_of_sat + 1 = 0 then None
        else if crem (int i) (num_of_sat + 1) = 0 then
          (case line of
             EpochLine t gs_time \<Rightarrow>
               Some (st\<lparr>pl_unix_time := of_int t, pl_cos := cos gs_time, pl_sin := sin gs_time,
                         pl_start_unix_time := min (pl_start_unix_time st) (of_int t),
                         pl_end_unix_time := max (pl_end_unix_time st) (of_int t)\<rparr>)
           | SatelliteLine sat_num numbers \<Rightarrow> None)
        else
          (case line of
             EpochLine t gs_time \<Rightarrow> None
           | SatelliteLine sat_num numbers \<Rightarrow>
               do {
                 gnss_satellite_id \<leftarrow> GetIndexFromId sat_num;
                 coordinates \<leftarrow> read_coordinates numbers;
                 case coordinates of
                   None \<Rightarrow> Some st
                 | Some km \<Rightarrow>
                     let x = vec_nth km 0 * 1000; y = vec_nth km 1 * 1000; z = vec_nth km 2 * 1000;
                         eci_position = (pl_cos st * x - pl_sin st * y, pl_sin st * x + pl_cos st * y, z)
                     in do {
                       s \<leftarrow> Position_store (pl_unix_time st) gnss_satellite_id (x, y, z) eci_position
                              (pl_object st);
                       Some (st\<lparr>pl_object := s\<rparr>)
                     }
               }))"

text \<open>One page: the header sets the interval, the loop starts with \<open>unix_time = 0\<close>.\<close>

definition Position_read_page ::
    "sp3_page \<Rightarrow> real \<times> real \<times> GnssSatellitePosition \<Rightarrow> (real \<times> real \<times> GnssSatellitePosition) option" where
  "Position_read_page page acc =
     (case acc of (start_unix_time, end_unix_time, s) \<Rightarrow>
        do {
          st \<leftarrow> for_each (Position_read_line (header_num_of_sat page))
                  (zip [0..<length (data_lines page)] (data_lines page))
                  \<lparr>pl_unix_time = 0, pl_cos = 0, pl_sin = 0,
                   pl_start_unix_time = start_unix_time, pl_end_unix_time = end_unix_time,
                   pl_object = s\<lparr>time_interval := header_time_interval page\<rparr>\<rparr>;
          Some (pl_start_unix_time st, pl_end_unix_time st, pl_object st)
        })"

definition Position_Initialize ::
    "GnssSatellitePosition \<Rightarrow> sp3_page list \<Rightarrow> int \<Rightarrow> (GnssSatellitePosition \<times> real \<times> real) option" where
  "Position_Initialize s file interpolation_number' =
     (let n = nat all_sat_num
      in do {
        (start_unix_time, end_unix_time, s) \<leftarrow>
          for_each Position_read_page file
            (10 ^ 16, 0,
             s\<lparr>interpolation_number := interpolation_number',
               time_series_position_ecef_m := resize (time_series_position_ecef_m s) n [],
               time_series_position_eci_m := resize (time_series_position_eci_m s) n [],
               unix_time_list := resize (unix_time_list s) n []\<rparr>);
        Some (s, start_unix_time, end_unix_time)
      })"

text \<open>The same step of the clock read from the orbit format.\<close>

definition Clock_store :: "real \<Rightarrow> int \<Rightarrow> real \<Rightarrow> GnssSatelliteClock \<Rightarrow> GnssSatelliteClock option" where
  "Clock_store unix_time gnss_satellite_id clock' s =
     do {
       utl \<leftarrow> at_idx (unix_time_list s) gnss_satellite_id;
       if utl \<noteq> [] \<and> \<bar>unix_time - last utl\<bar> < 1 then do {
         utl' \<leftarrow> set_back utl unix_time;
         times \<leftarrow> set_at (unix_time_list s) gnss_satellite_id utl';
         series \<leftarrow> at_idx (time_series_clock_offset_m s) gnss_satellite_id;
         series' \<leftarrow> set_back series clock';
         all_series \<leftarrow> set_at (time_series_clock_offset_m s) gnss_satellite_id series';
         Some (s\<lparr>unix_time_list := times, time_series_clock_offset_m := all_series\<rparr>)
       } else do {
         times \<leftarrow> set_at (unix_time_list s) gnss_satellite_id (utl @ [unix_time]);
         series \<leftarrow> at_idx (time_series_clock_offset_m s) gnss_satellite_id;
         all_series \<leftarrow> set_at (time_series_clock_offset_m s) gnss_satellite_id (series @ [clock']);
         Some (s\<lparr>unix_time_list := times, time_series_clock_offset_m := all_series\<rparr>)
       }
     }"

text \<open>One round of the data loop of \<open>GnssSatelliteClock::Initialize\<close> for \<open>.sp3\<close>.\<close>

definition Clock_read_line ::
    "environment \<Rightarrow> int \<Rightarrow> nat \<times> sp3_line \<Rightarrow> real \<times> GnssSatelliteClock \<Rightarrow> (real \<times> GnssSatelliteClock) option" where
  "Clock_read_line env num_of_sat il st =
     (case (il, st) of ((i, line), (unix_time, s)) \<Rightarrow>
        if num_of_sat + 1 = 0 then None
        else if crem (int i) (num_of_sat + 1) = 0 then
          (case line of
             EpochLine t gs_time \<Rightarrow> Some (of_int t, s)
           | SatelliteLine sat_num numbers \<Rightarrow> None)
        else
          (case line of
             EpochLine t gs_time \<Rightarrow> None
           | SatelliteLine sat_num numbers \<Rightarrow>
               do {
                 gnss_satellite_id \<leftarrow> GetIndexFromId sat_num;
                 clock' \<leftarrow> at_idx numbers 3;
                 if \<bar>clock' - nan99\<bar> < 1 then Some (unix_time, s)
                 else do {
                   s \<leftarrow> Clock_store unix_time gnss_satellite_id
                          (clock' * (speed_of_light_m_s env * (1 / 1000000))) s;
                   Some (unix_time, s)
                 }
               }))"

definition Clock_read_page :: "environment \<Rightarrow> sp3_page \<Rightarrow> GnssSatelliteClock \<Rightarrow> GnssSatelliteClock option" where
  "Clock_read_page env page s =
     do {
       (unix_time, s) \<leftarrow> for_each (Clock_read_line env (header_num_of_sat page))
                  (zip [0..<length (data_lines page)] (data_lines page))
                  (0, s\<lparr>time_interval := header_time_interval page\<rparr>);
       Some s
     }"

text \<open>\<open>GnssSatelliteClock::Initialize\<close> with the file extension \<open>.sp3\<close>.\<close>

definition Clock_Initialize_sp3 ::
    "environment \<Rightarrow> GnssSatelliteClock \<Rightarrow> sp3_page list \<Rightarrow> int \<Rightarrow> GnssSatelliteClock option" where
  "Clock_Initialize_sp3 env s file interpolation_number' =
     (let n = nat all_sat_num
      in for_each (Clock_read_page env) file
           (s\<lparr>interpolation_number := interpolation_number',
              time_series_clock_offset_m := resize (time_series_clock_offset_m s) n [],
              unix_time_list := resize (unix_time_list s) n []\<rparr>))"

text \<open>
  The clock format \<open>.clk30s\<close>. A line is an \<open>AS\<close> record, given as its second token,
  its unix time and the number of its tenth token (the bias in seconds), or any other
  line. The enumerators of \<open>UltraRapidMode\<close> are declared in a header that is not among the
  sources: the mode is its integer value and the values of the enumerators that the code
  names are a parameter.
\<close>

datatype clk_line = ASLine string int real | OtherLine

record ultra_rapid_modes =
  kNotUse :: int
  kObserve1 :: int
  kPredict1 :: int
  kPredict4 :: int

text \<open>The same step for \<open>.clk30s\<close>: the tolerance is 1e-4 s, and an appended sample may
  lower \<open>time_interval_\<close>.\<close>

definition Clock_store_clk :: "real \<Rightarrow> int \<Rightarrow> real \<Rightarrow> GnssSatelliteClock \<Rightarrow> GnssSatelliteClock option" where
  "Clock_store_clk unix_time gnss_satellite_id clock_bias' s =
     do {
       utl \<leftarrow> at_idx (unix_time_list s) gnss_satellite_id;
       if utl \<noteq> [] \<and> \<bar>unix_time - last utl\<bar> < 1 / 10000 then do {
         utl' \<leftarrow> set_back utl unix_time;
         times \<leftarrow> set_at (unix_time_list s) gnss_satellite_id utl';
         series \<leftarrow> at_idx (time_series_clock_offset_m s) gnss_satellite_id;
         series' \<leftarrow> set_back series clock_bias';
         all_series \<leftarrow> set_at (time_series_clock_offset_m s) gnss_satellite_id series';
         Some (s\<lparr>unix_time_list := times, time_series_clock_offset_m := all_series\<rparr>)
       } else do {
         let s = (if utl \<noteq> [] then s\<lparr>time_interval := min (time_interval s) (unix_time - last utl)\<rparr> else s);
         times \<leftarrow> set_at (unix_time_list s) gnss_satellite_id (utl @ [unix_time]);
         series \<leftarrow> at_idx (time_series_clock_offset_m s) gnss_satellite_id;
         all_series \<leftarrow> set_at (time_series_clock_offset_m s) gnss_satellite_id (series @ [clock_bias']);
         Some (s\<lparr>unix_time_list := times, time_series_clock_offset_m := all_series\<rparr>)
       }
     }"

text \<open>The variables of the line loop of a \<open>.clk30s\<close> page; \<open>cl_stopped\<close> is the \<open>break\<close>.\<close>

record clock_loop =
  cl_start_unix_time :: real
  cl_end_unix_time :: real
  cl_stopped :: bool
  cl_object :: GnssSatelliteClock

text \<open>
  The period of a page: given by the caller, or set from the time of the record that is
  read while the start is negative.
\<close>

definition Clock_clk_period :: "ultra_rapid_modes \<Rightarrow> int \<Rightarrow> real \<Rightarrow> clock_loop \<Rightarrow> clock_loop" where
  "Clock_clk_period modes ur_flag unix_time st =
     (let interval = 6 * 60 * 60
      in if cl_start_unix_time st < 0
         then st\<lparr>cl_start_unix_time := unix_time + of_int (ur_flag - kObserve1 modes) * interval,
                 cl_end_unix_time := unix_time + of_int (ur_flag - kObserve1 modes) * interval + interval\<rparr>
         else st)"

text \<open>One round of the line loop of a \<open>.clk30s\<close> page.\<close>

definition Clock_read_clk_line ::
    "environment \<Rightarrow> ultra_rapid_modes \<Rightarrow> int \<Rightarrow> clk_line \<Rightarrow> clock_loop \<Rightarrow> clock_loop option" where
  "Clock_read_clk_line env modes ur_flag line st =
     (if cl_stopped st then Some st
      else case line of
        OtherLine \<Rightarrow> Some st
      | ASLine sat_num t bias_s \<Rightarrow>
          let unix_time = of_int t;
              st = Clock_clk_period modes ur_flag unix_time st
          in do {
            gnss_satellite_id \<leftarrow> GetIndexFromId sat_num;
            let clock_bias' = bias_s * speed_of_light_m_s env;
            if cl_start_unix_time st - unix_time > 1 / 10000 then Some st
            else if cl_end_unix_time st - unix_time < 1 / 10000 then Some (st\<lparr>cl_stopped := True\<rparr>)
            else do {
              s \<leftarrow> Clock_store_clk unix_time gnss_satellite_id clock_bias' (cl_object st);
              Some (st\<lparr>cl_object := s\<rparr>)
            }
          })"

text \<open>The line loop of a page, from the period that the caller gives or from none.\<close>

definition Clock_clk_lines ::
    "environment \<Rightarrow> ultra_rapid_modes \<Rightarrow> int \<Rightarrow> real \<times> real \<Rightarrow> clk_line list \<Rightarrow>
       GnssSatelliteClock \<Rightarrow> clock_loop option" where
  "Clock_clk_lines env modes ur_flag unix_time_period page s =
     for_each (Clock_read_clk_line env modes ur_flag) page
       (if ur_flag = kNotUse modes
        then \<lparr>cl_start_unix_time = fst unix_time_period,
              cl_end_unix_time = snd unix_time_period + 30, cl_stopped = False, cl_object = s\<rparr>
        else \<lparr>cl_start_unix_time = - 1, cl_end_unix_time = 0, cl_stopped = False, cl_object = s\<rparr>)"

definition Clock_read_clk_page ::
    "environment \<Rightarrow> ultra_rapid_modes \<Rightarrow> int \<Rightarrow> real \<times> real \<Rightarrow> clk_line list \<Rightarrow>
       GnssSatelliteClock \<Rightarrow> GnssSatelliteClock option" where
  "Clock_read_clk_page env modes ur_flag unix_time_period page s =
     do {
       st \<leftarrow> Clock_clk_lines env modes ur_flag unix_time_period page s;
       Some (cl_object st)
     }"

text \<open>\<open>GnssSatelliteClock::Initialize\<close> with another extension; \<open>exit(1)\<close> has no result.\<close>

definition Clock_Initialize_clk ::
    "environment \<Rightarrow> ultra_rapid_modes \<Rightarrow> GnssSatelliteClock \<Rightarrow> clk_line list list \<Rightarrow> int \<Rightarrow> int \<Rightarrow>
       real \<times> real \<Rightarrow> GnssSatelliteClock option" where
  "Clock_Initialize_clk env modes s file interpolation_number' ur_flag unix_time_period =
     (let n = nat all_sat_num;
          s = s\<lparr>interpolation_number := interpolation_number',
                time_series_clock_offset_m := resize (time_series_clock_offset_m s) n [],
                unix_time_list := resize (unix_time_list s) n []\<rparr>
      in if kPredict1 modes \<le> ur_flag \<and> ur_flag \<le> kPredict4 modes then None
         else for_each (Clock_read_clk_page env modes ur_flag unix_time_period) file
                (s\<lparr>time_interval := 1000000000\<rparr>))"

text \<open>The epochs of a file in the order in which they are read.\<close>

fun epochs_of :: "sp3_line list \<Rightarrow> real list" where
  "epochs_of [] = []"
| "epochs_of (EpochLine t gs_time # ls) = of_int t # epochs_of ls"
| "epochs_of (SatelliteLine sat_num numbers # ls) = epochs_of ls"

definition file_epochs :: "sp3_page list \<Rightarrow> real list" where
  "file_epochs file = concat (map (\<lambda>page. epochs_of (data_lines page)) file)"








text \<open>Every time stamp list is strictly increasing (and bounded by \<open>T\<close>).\<close>

definition times_increasing :: "'a GnssSatelliteBase_scheme \<Rightarrow> bool" where
  "times_increasing s = list_all (sorted_wrt (<)) (unix_time_list s)"


subsection \<open>A small ephemeris\<close>

text \<open>
  One satellite, G01 (index 0), with four samples ten seconds apart and windows of three
  samples; the other 116 satellites have no data. This is the state that the ingestion
  leaves, before \<open>SetUp\<close>.
\<close>

definition example_position :: GnssSatellitePosition where
  "example_position =
     \<lparr>unix_time_list = [0, 10, 20, 30] # replicate 116 [],
      time_period_list = [], validate = [], nearest_index = [],
      step_width_s = 0, time_interval = 10, interpolation_number = 3,
      time_series_position_ecef_m =
        [(- 26000000, - 1000, 0), (- 26000000, 0, 0), (- 26000000, 1000, 0), (- 26000000, 2000, 0)]
          # replicate 116 [],
      time_series_position_eci_m =
        [(0, 26000000, - 1000), (0, 26000000, 0), (0, 26000000, 1000), (0, 26000000, 2000)]
          # replicate 116 [],
      position_ecef_m = [], position_eci_m = [], ecef = [], eci = []\<rparr>"

definition example_clock :: GnssSatelliteClock where
  "example_clock =
     \<lparr>unix_time_list = [0, 10, 20, 30] # replicate 116 [],
      time_period_list = [], validate = [], nearest_index = [],
      step_width_s = 0, time_interval = 10, interpolation_number = 3,
      time_series_clock_offset_m = [5, 6, 7, 8] # replicate 116 [],
      clock_offset_m = [], clock_bias = []\<rparr>"


definition example_clock_unsorted :: GnssSatelliteClock where
  "example_clock_unsorted =
     example_clock\<lparr>unix_time_list := [0, 10, 5, 20, 30] # replicate 116 [],
                    time_series_clock_offset_m := [5, 6, 7, 8, 9] # replicate 116 []\<rparr>"

text \<open>Both tracks after \<open>SetUp\<close> at the second sample, as truth and as estimate.\<close>

definition example_info :: GnssSatelliteInformation where
  "example_info = the (info_SetUp \<lparr>position = example_position, clock = example_clock\<rparr> 10 1)"

definition example_satellites :: GnssSatellites where
  "example_satellites =
     \<lparr>true_info = example_info, estimate_info = example_info,
      is_calc_enabled = True, sats_start_unix_time = 10\<rparr>"

definition example_environment :: environment where
  "example_environment =
     \<lparr>speed_of_light_m_s = 299792458, earth_equatorial_radius_m = 63781366 / 10\<rparr>"

text \<open>Objects before any ingestion.\<close>

definition fresh_position :: GnssSatellitePosition where
  "fresh_position =
     \<lparr>unix_time_list = [], time_period_list = [], validate = [], nearest_index = [],
      step_width_s = 0, time_interval = 0, interpolation_number = 0,
      time_series_position_ecef_m = [], time_series_position_eci_m = [],
      position_ecef_m = [], position_eci_m = [], ecef = [], eci = []\<rparr>"

definition fresh_clock :: GnssSatelliteClock where
  "fresh_clock =
     \<lparr>unix_time_list = [], time_period_list = [], validate = [], nearest_index = [],
      step_width_s = 0, time_interval = 0, interpolation_number = 0,
      time_series_clock_offset_m = [], clock_offset_m = [], clock_bias = []\<rparr>"

text \<open>
  Two pages for G01 in the order of time: the second starts with the last epoch of the
  first, as consecutive daily products do. And the same two pages in the wrong order.
\<close>

definition example_page_1 :: sp3_page where
  "example_page_1 =
     \<lparr>header_time_interval = 100, header_num_of_sat = 1,
      data_lines = [EpochLine 100 0, SatelliteLine ''PG01'' [1, 2, 3, 4],
                    EpochLine 200 0, SatelliteLine ''PG01'' [5, 6, 7, 8]]\<rparr>"

definition example_page_2 :: sp3_page where
  "example_page_2 =
     \<lparr>header_time_interval = 100, header_num_of_sat = 1,
      data_lines = [EpochLine 200 0, SatelliteLine ''PG01'' [9, 10, 11, 12],
                    EpochLine 300 0, SatelliteLine ''PG01'' [13, 14, 15, 16]]\<rparr>"

text \<open>A later page, and an object that holds time stamps out of their order.\<close>

definition example_page_3 :: sp3_page where
  "example_page_3 =
     \<lparr>header_time_interval = 100, header_num_of_sat = 1,
      data_lines = [EpochLine 500 0, SatelliteLine ''PG01'' [17, 18, 19, 20]]\<rparr>"

definition disordered_position :: GnssSatellitePosition where
  "disordered_position =
     fresh_position\<lparr>unix_time_list := [[200, 300, 100, 200]],
                    time_series_position_ecef_m := [[(9, 10, 11), (13, 14, 15), (1, 2, 3), (5, 6, 7)]],
                    time_series_position_eci_m := [[(9, 10, 11), (13, 14, 15), (1, 2, 3), (5, 6, 7)]]\<rparr>"

definition example_clk_page :: "clk_line list" where
  "example_clk_page = [OtherLine, ASLine ''G01'' 100 1, ASLine ''G01'' 100 2, ASLine ''G01'' 130 3]"

definition example_modes :: ultra_rapid_modes where
  "example_modes = \<lparr>kNotUse = 0, kObserve1 = 1, kPredict1 = 5, kPredict4 = 8\<rparr>"

text \<open>Objects that hold one sample of G01, at 100 s.\<close>

definition one_sample_position :: GnssSatellitePosition where
  "one_sample_position =
     fresh_position\<lparr>unix_time_list := [[100]], time_series_position_ecef_m := [[(1, 2, 3)]],
                    time_series_position_eci_m := [[(3, 2, 1)]]\<rparr>"

definition one_sample_clock :: GnssSatelliteClock where
  "one_sample_clock = fresh_clock\<lparr>unix_time_list := [[100]], time_series_clock_offset_m := [[5]]\<rparr>"

subsection \<open>What the claims say about a window\<close>

text \<open>The time stamp of the sample at the cached nearest index of a satellite.\<close>

definition nearest_time :: "'a GnssSatelliteBase_scheme \<Rightarrow> int \<Rightarrow> real option" where
  "nearest_time s gnss_satellite_id =
     do {
       utl \<leftarrow> at_idx (unix_time_list s) gnss_satellite_id;
       index \<leftarrow> at_idx (nearest_index s) gnss_satellite_id;
       at_idx utl index
     }"

text \<open>(a) The window holds exactly \<open>interpolation_number\<close> samples.\<close>

definition window_full :: "'a GnssSatelliteBase_scheme \<Rightarrow> int \<Rightarrow> bool" where
  "window_full s gnss_satellite_id =
     (case at_idx (time_period_list s) gnss_satellite_id of
        None \<Rightarrow> False
      | Some tp \<Rightarrow> int (length tp) = interpolation_number s)"

text \<open>
  (b) The window spans at most \<open>time_interval * (interpolation_number - 1 + slack)\<close>, with
  the tolerance of 1e-4 s.
\<close>

definition window_span_ok :: "int \<Rightarrow> 'a GnssSatelliteBase_scheme \<Rightarrow> int \<Rightarrow> bool" where
  "window_span_ok slack s gnss_satellite_id =
     (case at_idx (time_period_list s) gnss_satellite_id of
        None \<Rightarrow> False
      | Some tp \<Rightarrow>
          tp \<noteq> [] \<and>
          last tp - hd tp \<le> time_interval s * of_int (interpolation_number s - 1 + slack) + 1 / 10000)"

text \<open>(c) The nearest sample is within \<open>time_interval\<close> of the query time.\<close>

definition nearest_within :: "'a GnssSatelliteBase_scheme \<Rightarrow> int \<Rightarrow> real \<Rightarrow> bool" where
  "nearest_within s gnss_satellite_id unix_time =
     (case nearest_time s gnss_satellite_id of
        None \<Rightarrow> False
      | Some t \<Rightarrow> \<bar>unix_time - t\<bar> \<le> time_interval s)"

text \<open>The flag of a satellite is set, and it is true exactly when (a), (b) and (c) hold.\<close>

definition flag_matches_window :: "int \<Rightarrow> 'a GnssSatelliteBase_scheme \<Rightarrow> int \<Rightarrow> real \<Rightarrow> bool" where
  "flag_matches_window slack s gnss_satellite_id unix_time =
     (at_idx (validate s) gnss_satellite_id =
        Some (window_full s gnss_satellite_id \<and> window_span_ok slack s gnss_satellite_id \<and>
              nearest_within s gnss_satellite_id unix_time))"

text \<open>The stored samples at the cached nearest index.\<close>

definition nearest_ecef :: "GnssSatellitePosition \<Rightarrow> int \<Rightarrow> vec3 option" where
  "nearest_ecef s gnss_satellite_id =
     do {
       series \<leftarrow> at_idx (time_series_position_ecef_m s) gnss_satellite_id;
       index \<leftarrow> at_idx (nearest_index s) gnss_satellite_id;
       at_idx series index
     }"

definition nearest_eci :: "GnssSatellitePosition \<Rightarrow> int \<Rightarrow> vec3 option" where
  "nearest_eci s gnss_satellite_id =
     do {
       series \<leftarrow> at_idx (time_series_position_eci_m s) gnss_satellite_id;
       index \<leftarrow> at_idx (nearest_index s) gnss_satellite_id;
       at_idx series index
     }"

definition nearest_clock :: "GnssSatelliteClock \<Rightarrow> int \<Rightarrow> real option" where
  "nearest_clock s gnss_satellite_id =
     do {
       series \<leftarrow> at_idx (time_series_clock_offset_m s) gnss_satellite_id;
       index \<leftarrow> at_idx (nearest_index s) gnss_satellite_id;
       at_idx series index
     }"

text \<open>The time stamps of a satellite are in ascending order.\<close>

definition series_sorted :: "'a GnssSatelliteBase_scheme \<Rightarrow> int \<Rightarrow> bool" where
  "series_sorted s gnss_satellite_id =
     (case at_idx (unix_time_list s) gnss_satellite_id of
        None \<Rightarrow> False
      | Some utl \<Rightarrow> sorted utl)"

text \<open>Some stored sample of a satellite is less than 1e-4 s away from the time.\<close>

definition sample_within :: "'a GnssSatelliteBase_scheme \<Rightarrow> int \<Rightarrow> real \<Rightarrow> bool" where
  "sample_within s gnss_satellite_id unix_time =
     (case at_idx (unix_time_list s) gnss_satellite_id of
        None \<Rightarrow> False
      | Some utl \<Rightarrow> list_ex (\<lambda>u. \<bar>unix_time - u\<bar> < 1 / 10000) utl)"

text \<open>
  The sample at the cached nearest index is a nearest stored sample: no stored sample of the
  satellite is closer to the time.
\<close>

definition cached_is_nearest :: "'a GnssSatelliteBase_scheme \<Rightarrow> int \<Rightarrow> real \<Rightarrow> bool" where
  "cached_is_nearest s gnss_satellite_id unix_time =
     (case at_idx (unix_time_list s) gnss_satellite_id of
        None \<Rightarrow> False
      | Some utl \<Rightarrow>
          (case nearest_time s gnss_satellite_id of
             None \<Rightarrow> False
           | Some tn \<Rightarrow> list_all (\<lambda>u. \<bar>unix_time - tn\<bar> \<le> \<bar>unix_time - u\<bar>) utl))"

text \<open>The current values of a satellite are the stored samples at the nearest index.\<close>

definition position_holds_sample :: "GnssSatellitePosition \<Rightarrow> int \<Rightarrow> bool" where
  "position_holds_sample s gnss_satellite_id =
     (at_idx (position_ecef_m s) gnss_satellite_id \<noteq> None \<and>
      at_idx (position_ecef_m s) gnss_satellite_id = nearest_ecef s gnss_satellite_id \<and>
      at_idx (position_eci_m s) gnss_satellite_id \<noteq> None \<and>
      at_idx (position_eci_m s) gnss_satellite_id = nearest_eci s gnss_satellite_id)"

definition clock_holds_sample :: "GnssSatelliteClock \<Rightarrow> int \<Rightarrow> bool" where
  "clock_holds_sample s gnss_satellite_id =
     (at_idx (clock_offset_m s) gnss_satellite_id \<noteq> None \<and>
      at_idx (clock_offset_m s) gnss_satellite_id = nearest_clock s gnss_satellite_id)"

text \<open>
  What a loop round for another satellite leaves alone: the time series, the constants, and
  every entry of the per-satellite vectors except the one of satellite \<open>i\<close>.
\<close>

definition base_frame :: "int \<Rightarrow> 'a GnssSatelliteBase_scheme \<Rightarrow> 'a GnssSatelliteBase_scheme \<Rightarrow> bool" where
  "base_frame i s s' =
     (unix_time_list s' = unix_time_list s \<and> time_interval s' = time_interval s \<and>
      interpolation_number s' = interpolation_number s \<and>
      (\<forall>k. k \<noteq> i \<longrightarrow>
         at_idx (time_period_list s') k = at_idx (time_period_list s) k \<and>
         at_idx (validate s') k = at_idx (validate s) k \<and>
         at_idx (nearest_index s') k = at_idx (nearest_index s) k))"

definition position_frame :: "int \<Rightarrow> GnssSatellitePosition \<Rightarrow> GnssSatellitePosition \<Rightarrow> bool" where
  "position_frame i s s' =
     (base_frame i s s' \<and>
      time_series_position_ecef_m s' = time_series_position_ecef_m s \<and>
      time_series_position_eci_m s' = time_series_position_eci_m s \<and>
      (\<forall>k. k \<noteq> i \<longrightarrow>
         at_idx (position_ecef_m s') k = at_idx (position_ecef_m s) k \<and>
         at_idx (position_eci_m s') k = at_idx (position_eci_m s) k \<and>
         at_idx (ecef s') k = at_idx (ecef s) k \<and>
         at_idx (eci s') k = at_idx (eci s) k))"

definition clock_frame :: "int \<Rightarrow> GnssSatelliteClock \<Rightarrow> GnssSatelliteClock \<Rightarrow> bool" where
  "clock_frame i s s' =
     (base_frame i s s' \<and>
      time_series_clock_offset_m s' = time_series_clock_offset_m s \<and>
      (\<forall>k. k \<noteq> i \<longrightarrow>
         at_idx (clock_offset_m s') k = at_idx (clock_offset_m s) k \<and>
         at_idx (clock_bias s') k = at_idx (clock_bias s) k))"

text \<open>What the model holds about one satellite.\<close>

definition base_view ::
    "'a GnssSatelliteBase_scheme \<Rightarrow> int \<Rightarrow>
       real list option \<times> real list option \<times> bool option \<times> int option \<times> real \<times> int" where
  "base_view s i =
     (at_idx (unix_time_list s) i, at_idx (time_period_list s) i, at_idx (validate s) i,
      at_idx (nearest_index s) i, time_interval s, interpolation_number s)"

definition position_view ::
    "GnssSatellitePosition \<Rightarrow> int \<Rightarrow>
       (real list option \<times> real list option \<times> bool option \<times> int option \<times> real \<times> int)
       \<times> vec3 list option \<times> vec3 list option \<times> vec3 option \<times> vec3 option" where
  "position_view s i =
     (base_view s i, at_idx (time_series_position_ecef_m s) i, at_idx (time_series_position_eci_m s) i,
      at_idx (position_ecef_m s) i, at_idx (position_eci_m s) i)"

definition clock_view ::
    "GnssSatelliteClock \<Rightarrow> int \<Rightarrow>
       (real list option \<times> real list option \<times> bool option \<times> int option \<times> real \<times> int)
       \<times> real list option \<times> real option" where
  "clock_view s i = (base_view s i, at_idx (time_series_clock_offset_m s) i, at_idx (clock_offset_m s) i)"

text \<open>What the loop that fills a window changes.\<close>

definition position_window_only :: "int \<Rightarrow> GnssSatellitePosition \<Rightarrow> GnssSatellitePosition \<Rightarrow> bool" where
  "position_window_only i s s' =
     (\<exists>a b c. s' = s\<lparr>time_period_list := a, ecef := b, eci := c\<rparr> \<and>
        (\<forall>k. k \<noteq> i \<longrightarrow> at_idx a k = at_idx (time_period_list s) k \<and>
              at_idx b k = at_idx (ecef s) k \<and> at_idx c k = at_idx (eci s) k))"

definition clock_window_only :: "int \<Rightarrow> GnssSatelliteClock \<Rightarrow> GnssSatelliteClock \<Rightarrow> bool" where
  "clock_window_only i s s' =
     (\<exists>a b. s' = s\<lparr>time_period_list := a, clock_bias := b\<rparr> \<and>
        (\<forall>k. k \<noteq> i \<longrightarrow> at_idx a k = at_idx (time_period_list s) k \<and>
              at_idx b k = at_idx (clock_bias s) k))"

text \<open>
  The next sample of a satellite exists and is strictly closer to the time than the sample
  at the cached nearest index.
\<close>

definition closer_in :: "real list \<Rightarrow> int \<Rightarrow> real \<Rightarrow> bool" where
  "closer_in utl index unix_time =
     (case at_idx utl (index + 1) of
        None \<Rightarrow> False
      | Some post_unix \<Rightarrow>
          (case at_idx utl index of
             None \<Rightarrow> False
           | Some pre_unix \<Rightarrow> \<bar>unix_time - post_unix\<bar> < \<bar>unix_time - pre_unix\<bar>))"

definition next_sample_closer :: "'a GnssSatelliteBase_scheme \<Rightarrow> int \<Rightarrow> real \<Rightarrow> bool" where
  "next_sample_closer s gnss_satellite_id unix_time =
     (case at_idx (unix_time_list s) gnss_satellite_id of
        None \<Rightarrow> False
      | Some utl \<Rightarrow>
          (case at_idx (nearest_index s) gnss_satellite_id of
             None \<Rightarrow> False
           | Some index \<Rightarrow> closer_in utl index unix_time))"

section \<open>Properties\<close>

subsection \<open>Identifiers and flat indices\<close>

lemmas sat_consts =
  gps_sat_num_def glonass_sat_num_def galileo_sat_num_def beidou_sat_num_def qzss_sat_num_def
  gps_index_bias_def glonass_index_bias_def galileo_index_bias_def beidou_index_bias_def
  qzss_index_bias_def all_sat_num_def

lemma of_char_digit_char: "d < 10 \<Longrightarrow> (of_char (digit_char d) :: nat) = 48 + d"
  by (simp add: digit_char_def)

lemma digit_char_props:
  assumes "d < 10"
  shows "is_digit (digit_char d)" "\<not> is_space (digit_char d)" "digit_val (digit_char d) = d"
    "digit_char d \<noteq> CHR ''-''" "digit_char d \<noteq> CHR ''+''"
proof -
  note e = of_char_digit_char [OF assms]
  show "is_digit (digit_char d)" "\<not> is_space (digit_char d)" "digit_val (digit_char d) = d"
    using assms by (simp_all add: is_digit_def is_space_def digit_val_def e)
  have "(of_char (digit_char d) :: nat) \<noteq> of_char CHR ''-''" "(of_char (digit_char d) :: nat) \<noteq> of_char CHR ''+''"
    unfolding e by simp_all
  then show "digit_char d \<noteq> CHR ''-''" "digit_char d \<noteq> CHR ''+''"
    by auto
qed

lemma nat_digits_all_digits: "\<forall>c \<in> set (nat_digits n). is_digit c \<and> \<not> is_space c \<and> c \<noteq> CHR ''-'' \<and> c \<noteq> CHR ''+''"
proof (induction n rule: nat_digits.induct)
  case (1 n)
  show ?case
  proof (cases "n < 10")
    case True
    then show ?thesis
      by (subst nat_digits.simps) (simp add: digit_char_props)
  next
    case False
    then have "n mod 10 < 10" by simp
    with False 1 show ?thesis
      by (subst nat_digits.simps) (simp add: digit_char_props)
  qed
qed

lemma nat_digits_not_Nil: "nat_digits n \<noteq> []"
  by (subst nat_digits.simps) simp

lemma digits_value_snoc: "digits_value a (cs @ [c]) = 10 * digits_value a cs + digit_val c"
  by (induction cs arbitrary: a) simp_all

lemma digits_value_nat_digits: "digits_value 0 (nat_digits n) = n"
proof (induction n rule: nat_digits.induct)
  case (1 n)
  show ?case
  proof (cases "n < 10")
    case True
    then show ?thesis
      by (subst nat_digits.simps) (simp add: digit_char_props)
  next
    case False
    then have "digits_value 0 (nat_digits (n div 10)) = n div 10"
      using 1 by simp
    with False show ?thesis
      by (subst nat_digits.simps) (simp add: digits_value_snoc digit_char_props)
  qed
qed

lemma stoi_digit_string:
  assumes "ds \<noteq> []" and "\<forall>c \<in> set ds. is_digit c \<and> \<not> is_space c \<and> c \<noteq> CHR ''-'' \<and> c \<noteq> CHR ''+''"
    and "int (digits_value 0 ds) \<le> INT32_MAX"
  shows "stoi ds = Some (int (digits_value 0 ds))"
proof -
  obtain c r where ds: "ds = c # r"
    using assms(1) by (cases ds) auto
  have dw: "dropWhile is_space ds = ds"
    using assms(2) ds by simp
  have tw: "takeWhile is_digit ds = ds"
    using assms(2) by (simp add: takeWhile_eq_all_conv)
  have c: "c \<noteq> CHR ''-''" "c \<noteq> CHR ''+''"
    using assms(2) ds by auto
  have "in_int32 (int (digits_value 0 ds))"
    using assms(3) by (simp add: in_int32_def INT32_MIN_def)
  then show ?thesis
    using assms(1) c tw unfolding stoi_def dw by (simp add: ds Let_def)
qed

lemma stoi_to_string:
  assumes "0 \<le> n" "n \<le> INT32_MAX"
  shows "stoi (to_string n) = Some n" and "stoi (''0'' @ to_string n) = Some n"
proof -
  let ?ds = "nat_digits (nat n)"
  have v: "int (digits_value 0 ?ds) = n"
    using assms(1) by (simp add: digits_value_nat_digits)
  have z: "is_digit CHR ''0'' \<and> \<not> is_space CHR ''0''"
    by (simp add: is_digit_def is_space_def)
  have v0: "digits_value 0 (''0'' @ ?ds) = digits_value 0 ?ds"
    by (simp add: digit_val_def)
  show "stoi (to_string n) = Some n"
    using stoi_digit_string [of ?ds] assms nat_digits_all_digits [of "nat n"] nat_digits_not_Nil [of "nat n"]
    by (simp add: to_string_def v)
  have b0: "int (digits_value 0 (''0'' @ ?ds)) \<le> INT32_MAX"
    unfolding v0 v by (rule assms(2))
  have "stoi (''0'' @ ?ds) = Some (int (digits_value 0 (''0'' @ ?ds)))"
    using nat_digits_all_digits [of "nat n"] z by (intro stoi_digit_string [OF _ _ b0]) auto
  then show "stoi (''0'' @ to_string n) = Some n"
    using assms(1) unfolding v0 v by (simp add: to_string_def)
qed

lemma index_of_id_string:
  assumes "tag \<in> set ''GRECJ''" "0 \<le> n" "n \<le> 1000"
  shows "GetIndexFromId (id_string tag n) = index_of_tag tag (id_string tag n) 1"
    and "substr (id_string tag n) 1 = Some ((if n < 10 then ''0'' else []) @ to_string n)"
  using assms by (auto simp: GetIndexFromId_def id_string_def front_of_def substr_def)

text \<open>
  C4. Round trip from the index: for every flat index \<open>i\<close> with \<open>0 \<le> i\<close> below the total
  satellite count (117), \<open>GetIndexFromId (GetIdFromIndex i)\<close> returns \<open>i\<close>.
\<close>

theorem index_id_roundtrip:
  assumes "0 \<le> i" and "i < all_sat_num"
  shows "GetIndexFromId (GetIdFromIndex i) = Some i"
proof -
  have r: "GetIndexFromId (id_string tag (i - b)) = Some i"
    if "tag \<in> set ''GRECJ''" "b \<le> i"
      "index_of_tag tag (id_string tag (i - b)) 1 =
         do { s \<leftarrow> substr (id_string tag (i - b)) 1; n \<leftarrow> stoi s; add_int32 n b }"
      "- 1 \<le> b"
    for tag b
  proof -
    have n: "0 \<le> i - b" "i - b \<le> 1000" "i - b \<le> INT32_MAX"
      using that assms by (simp_all add: sat_consts INT32_MAX_def)
    have "stoi ((if i - b < 10 then ''0'' else []) @ to_string (i - b)) = Some (i - b)"
      using stoi_to_string [OF n(1) n(3)] by simp
    moreover have "add_int32 (i - b) b = Some i"
      using assms by (simp add: add_int32_def in_int32_def INT32_MIN_def INT32_MAX_def sat_consts)
    ultimately show ?thesis
      using index_of_id_string [OF that(1) n(1) n(2)] that(3) by simp
  qed
  show ?thesis
    unfolding GetIdFromIndex_def using assms
    by (auto intro!: r simp: index_of_tag_def) (simp_all add: sat_consts)
qed

theorem index_id_roundtrip_witness:
  "(0::int) \<le> 31 \<and> 31 < all_sat_num \<and> GetIndexFromId (GetIdFromIndex 31) = Some 31"
  using index_id_roundtrip [of 31] by (simp add: sat_consts)

text \<open>
  C5. Round trip from the identifier: the claim is that \<open>GetIdFromIndex (GetIndexFromId id)\<close>
  is \<open>id\<close> for every well-formed identifier. The last satellite of GPS has the index 31,
  which \<open>GetIdFromIndex\<close> compares with \<open>index < glonass_index_bias_\<close> (31 as well), so
  it is printed as the GLONASS identifier \<open>R00\<close>.
\<close>

theorem id_of_index_of_G32:
  "GetIndexFromId ''G32'' = Some 31 \<and> GetIdFromIndex 31 = ''R00''"
  by code_simp

subsection \<open>Containers and loops\<close>

lemma set_at_SomeD:
  assumes "set_at xs i v = Some ys"
  shows "at_idx ys i = Some v" and "k \<noteq> i \<Longrightarrow> at_idx ys k = at_idx xs k" and "length ys = length xs"
  using assms by (auto simp: set_at_def at_idx_def split: if_splits)

lemma for_each_Cons_SomeD:
  "for_each body (i # is) s = Some s' \<Longrightarrow> \<exists>s1. body i s = Some s1 \<and> for_each body is s1 = Some s'"
  by (cases "body i s") simp_all

lemma for_each_preserves:
  assumes "for_each body is s = Some s'"
    and "\<And>j s s'. j \<in> set is \<Longrightarrow> body j s = Some s' \<Longrightarrow> Q s s'"
    and "\<And>s. Q s s" and "\<And>a b c. Q a b \<Longrightarrow> Q b c \<Longrightarrow> Q a c"
  shows "Q s s'"
  using assms(1,2)
proof (induction "is" arbitrary: s)
  case Nil
  then show ?case by (simp add: assms(3))
next
  case (Cons j js)
  from Cons.prems(1) obtain s1 where s1: "body j s = Some s1" "for_each body js s1 = Some s'"
    by (blast dest: for_each_Cons_SomeD)
  have "Q s s1" using Cons.prems(2) [of j s s1] s1(1) by simp
  moreover have "Q s1 s'" by (rule Cons.IH [OF s1(2)]) (rule Cons.prems(2), simp_all)
  ultimately show ?case by (rule assms(4))
qed

lemma for_each_relate:
  assumes run: "for_each body is s = Some s'" and mem: "i \<in> set is" and dist: "distinct is"
    and step: "\<And>s s'. body i s = Some s' \<Longrightarrow> R s s'"
    and frame: "\<And>j s s'. j \<noteq> i \<Longrightarrow> body j s = Some s' \<Longrightarrow> E s s'"
    and E_refl: "\<And>s. E s s" and E_trans: "\<And>a b c. E a b \<Longrightarrow> E b c \<Longrightarrow> E a c"
    and cong_l: "\<And>a b c. E a b \<Longrightarrow> R b c \<Longrightarrow> R a c"
    and cong_r: "\<And>a b c. R a b \<Longrightarrow> E b c \<Longrightarrow> R a c"
  shows "R s s'"
  using run mem dist
proof (induction "is" arbitrary: s)
  case Nil
  then show ?case by simp
next
  case (Cons j js)
  from Cons.prems(1) obtain s1 where s1: "body j s = Some s1" "for_each body js s1 = Some s'"
    by (blast dest: for_each_Cons_SomeD)
  show ?case
  proof (cases "j = i")
    case True
    then have "i \<notin> set js" using Cons.prems(3) by simp
    then have "E s1 s'"
      using for_each_preserves [OF s1(2), of E] frame E_refl E_trans by metis
    moreover have "R s s1" using step s1(1) True by simp
    ultimately show ?thesis using cong_r by blast
  next
    case False
    then have "i \<in> set js" "distinct js" using Cons.prems by simp_all
    then have "R s1 s'" using Cons.IH s1(2) by simp
    moreover have "E s s1" using frame False s1(1) by blast
    ultimately show ?thesis using cong_l by blast
  qed
qed

lemma sat_ids_props: "distinct sat_ids" "i \<in> set sat_ids \<longleftrightarrow> 0 \<le> i \<and> i < all_sat_num"
  by (auto simp: sat_ids_def)

text \<open>On a series in ascending order the binary search counts the elements below the value.\<close>

lemma length_takeWhile_eq:
  assumes "n \<le> length xs" and "\<forall>k<n. P (xs ! k)" and "n < length xs \<longrightarrow> \<not> P (xs ! n)"
  shows "length (takeWhile P xs) = n"
  using assms
proof (induction xs arbitrary: n)
  case Nil
  then show ?case by simp
next
  case (Cons x xs)
  show ?case
  proof (cases n)
    case 0
    then show ?thesis using Cons.prems by simp
  next
    case (Suc m)
    have "P x" using Cons.prems(2) Suc by auto
    moreover have "length (takeWhile P xs) = m"
      using Cons.prems Suc by (intro Cons.IH) auto
    ultimately show ?thesis using Suc by simp
  qed
qed

lemma lower_bound_from_sorted:
  assumes "sorted xs" and "first + len \<le> length xs"
    and "\<forall>k<first. xs ! k < v" and "\<forall>k. first + len \<le> k \<and> k < length xs \<longrightarrow> \<not> xs ! k < v"
  shows "lower_bound_from xs v first len = length (takeWhile (\<lambda>x. x < v) xs)"
  using assms
proof (induction xs v first len rule: lower_bound_from.induct)
  case (1 xs v first len)
  show ?case
  proof (cases "len = 0")
    case True
    then have "lower_bound_from xs v first len = first"
      by (simp add: lower_bound_from.simps)
    moreover have "length (takeWhile (\<lambda>x. x < v) xs) = first"
      using "1.prems" True by (intro length_takeWhile_eq) auto
    ultimately show ?thesis by simp
  next
    case False
    let ?half = "len div 2"
    let ?middle = "first + ?half"
    have m: "?middle < length xs" "?half < len"
      using False "1.prems"(2) by auto
    show ?thesis
    proof (cases "xs ! ?middle < v")
      case True
      have "\<forall>k<?middle + 1. xs ! k < v"
      proof (intro allI impI)
        fix k assume "k < ?middle + 1"
        then have "xs ! k \<le> xs ! ?middle"
          using "1.prems"(1) m(1) by (simp add: sorted_iff_nth_mono)
        then show "xs ! k < v" using True by simp
      qed
      moreover have "?middle + 1 + (len - ?half - 1) = first + len"
        using m(2) by simp
      ultimately have "lower_bound_from xs v (?middle + 1) (len - ?half - 1) = length (takeWhile (\<lambda>x. x < v) xs)"
        using "1.IH"(1) [OF False refl refl True "1.prems"(1)] "1.prems"(2,4) by simp
      then show ?thesis
        using False True by (subst lower_bound_from.simps) (simp add: Let_def)
    next
      case ge: False
      have "\<forall>k. ?middle \<le> k \<and> k < length xs \<longrightarrow> \<not> xs ! k < v"
      proof (intro allI impI)
        fix k assume "?middle \<le> k \<and> k < length xs"
        then have "xs ! ?middle \<le> xs ! k"
          using "1.prems"(1) by (simp add: sorted_iff_nth_mono)
        then show "\<not> xs ! k < v" using ge by simp
      qed
      then have "lower_bound_from xs v first ?half = length (takeWhile (\<lambda>x. x < v) xs)"
        using "1.IH"(2) [OF False refl refl ge "1.prems"(1)] "1.prems"(2,3) m by simp
      then show ?thesis
        using False ge by (subst lower_bound_from.simps) (simp add: Let_def)
    qed
  qed
qed

lemma lower_bound_sorted:
  "sorted xs \<Longrightarrow> lower_bound xs v = int (length (takeWhile (\<lambda>x. x < v) xs))"
  unfolding lower_bound_def by (simp add: lower_bound_from_sorted)




subsection \<open>The position track, satellite by satellite\<close>

lemma invalidate_SomeD:
  assumes "invalidate s i = Some s'"
  shows "\<exists>v. s' = s\<lparr>validate := v\<rparr> \<and> at_idx v i = Some False \<and> (\<forall>k. k \<noteq> i \<longrightarrow> at_idx v k = at_idx (validate s) k)"
  using assms by (auto simp: invalidate_def split: Option.bind_splits dest: set_at_SomeD)

lemma Position_push_sample_frame:
  assumes "Position_push_sample i index j s = Some s'"
  shows "\<exists>a b c. s' = s\<lparr>time_period_list := a, ecef := b, eci := c\<rparr> \<and>
           (\<forall>k. k \<noteq> i \<longrightarrow> at_idx a k = at_idx (time_period_list s) k \<and>
                 at_idx b k = at_idx (ecef s) k \<and> at_idx c k = at_idx (eci s) k)"
proof (cases "Position_push_sample i index j s = Some s")
  case True
  then have "s' = s\<lparr>time_period_list := time_period_list s, ecef := ecef s, eci := eci s\<rparr>"
    using assms by simp
  then show ?thesis by blast
next
  case False
  with assms obtain x a y b z c where sa: "set_at (time_period_list s) i x = Some a"
    and sb: "set_at (ecef s) i y = Some b" and sc: "set_at (eci s) i z = Some c"
    and s': "s' = s\<lparr>time_period_list := a, ecef := b, eci := c\<rparr>"
    by (auto simp: Position_push_sample_def Let_def split: Option.bind_splits if_splits)
  have "\<forall>k. k \<noteq> i \<longrightarrow> at_idx a k = at_idx (time_period_list s) k \<and>
                 at_idx b k = at_idx (ecef s) k \<and> at_idx c k = at_idx (eci s) k"
    by (simp add: set_at_SomeD(2) [OF sa] set_at_SomeD(2) [OF sb] set_at_SomeD(2) [OF sc])
  with s' show ?thesis by blast
qed


lemma position_window_only_refl: "position_window_only i s s"
  unfolding position_window_only_def
  by (rule exI [of _ "time_period_list s"], rule exI [of _ "ecef s"], rule exI [of _ "eci s"]) simp

lemma position_window_only_trans:
  "position_window_only i a b \<Longrightarrow> position_window_only i b c \<Longrightarrow> position_window_only i a c"
  unfolding position_window_only_def by (elim exE conjE) (simp, blast)

lemma Position_build_window_only:
  assumes "Position_build_window i index s = Some s'"
  shows "position_window_only i s s'"
proof (rule for_each_preserves [OF assms [unfolded Position_build_window_def]])
  show "position_window_only i a b" if "Position_push_sample i index j a = Some b" for j a b
    using Position_push_sample_frame [OF that] by (simp add: position_window_only_def)
qed (auto intro: position_window_only_refl position_window_only_trans)


lemma Position_evaluate_SomeD:
  assumes "Position_evaluate t i index nearest s = Some s'"
  shows "\<exists>v pe pc. s' = s\<lparr>validate := v, position_ecef_m := pe, position_eci_m := pc\<rparr> \<and>
      at_idx v i = Some (window_span_ok 3 s i) \<and>
      (\<forall>k. k \<noteq> i \<longrightarrow> at_idx v k = at_idx (validate s) k \<and>
            at_idx pe k = at_idx (position_ecef_m s) k \<and> at_idx pc k = at_idx (position_eci_m s) k) \<and>
      (window_span_ok 3 s i \<and> \<bar>t - nearest\<bar> < 1 / 10000 \<longrightarrow>
         at_idx pe i \<noteq> None \<and> at_idx pc i \<noteq> None \<and>
         at_idx pe i = at_idx (time_series_position_ecef_m s) i \<bind> (\<lambda>series. at_idx series index) \<and>
         at_idx pc i = at_idx (time_series_position_eci_m s) i \<bind> (\<lambda>series. at_idx series index))"
proof -
  from assms obtain tp b f where tp: "at_idx (time_period_list s) i = Some tp"
    and b: "back_of tp = Some b" and f: "front_of tp = Some f"
    by (auto simp: Position_evaluate_def split: Option.bind_splits)
  let ?long = "b - f > time_interval s * of_int (interpolation_number s - 1 + 3) + 1 / 10000"
  have span: "window_span_ok 3 s i \<longleftrightarrow> \<not> ?long"
    using b f by (auto simp: window_span_ok_def tp back_of_def front_of_def split: if_splits list.splits)
  show ?thesis
  proof (cases ?long)
    case True
    then have "invalidate s i = Some s'"
      using assms by (simp add: Position_evaluate_def tp b f Let_def)
    from invalidate_SomeD [OF this] obtain v where v: "s' = s\<lparr>validate := v\<rparr>"
      "at_idx v i = Some False" "\<forall>k. k \<noteq> i \<longrightarrow> at_idx v k = at_idx (validate s) k"
      by blast
    show ?thesis
      by (rule exI [of _ v], rule exI [of _ "position_ecef_m s"], rule exI [of _ "position_eci_m s"])
         (use v span True in simp)
  next
    case False
    with assms obtain v pe pc x y where v: "set_at (validate s) i True = Some v"
      and pe: "set_at (position_ecef_m s) i x = Some pe"
      and pc: "set_at (position_eci_m s) i y = Some pc"
      and s': "s' = s\<lparr>validate := v, position_ecef_m := pe, position_eci_m := pc\<rparr>"
      and ex: "\<bar>t - nearest\<bar> < 1 / 10000 \<longrightarrow>
         (\<exists>series. at_idx (time_series_position_ecef_m s) i = Some series \<and> at_idx series index = Some x) \<and>
         (\<exists>series. at_idx (time_series_position_eci_m s) i = Some series \<and> at_idx series index = Some y)"
      by (auto simp: Position_evaluate_def tp b f Let_def split: Option.bind_splits if_splits)
    show ?thesis
      by (rule exI [of _ v], rule exI [of _ pe], rule exI [of _ pc])
         (use s' span False ex set_at_SomeD [OF v] set_at_SomeD [OF pe] set_at_SomeD [OF pc] in auto)
  qed
qed


lemmas window_preds = flag_matches_window_def window_full_def window_span_ok_def nearest_within_def
  nearest_time_def position_holds_sample_def nearest_ecef_def nearest_eci_def

lemma at_idx_length: "at_idx xs (int (length xs)) = None"
  by (simp add: at_idx_def)

lemma Position_SetUp_sat_step:
  assumes "Position_SetUp_sat t i s = Some s'"
  shows "position_frame i s s' \<and> flag_matches_window 3 s' i t \<and>
     (at_idx (validate s') i = Some True \<longrightarrow> (\<forall>tn. nearest_time s' i = Some tn \<longrightarrow> \<bar>t - tn\<bar> < 1 / 10000 \<longrightarrow>
        position_holds_sample s' i))"
proof -
  from assms obtain utl where utl: "at_idx (unix_time_list s) i = Some utl"
    by (auto simp: Position_SetUp_sat_def split: Option.bind_splits)
  note run = assms [unfolded Position_SetUp_sat_def, simplified utl Option.bind.simps]
  show ?thesis
  proof (cases "utl = []")
    case True
    then have "invalidate s i = Some s'" using run by simp
    from invalidate_SomeD [OF this] obtain v where v: "s' = s\<lparr>validate := v\<rparr>"
      "at_idx v i = Some False" "\<forall>k. k \<noteq> i \<longrightarrow> at_idx v k = at_idx (validate s) k"
      by blast
    have "at_idx utl k = None" for k using True by (simp add: at_idx_def)
    then show ?thesis
      using v utl by (simp add: position_frame_def base_frame_def window_preds split: Option.bind_splits)
  next
    case False
    let ?i0 = "lower_bound utl t"
    show ?thesis
    proof (cases "?i0 = int (length utl)")
      case True
      with False run obtain ni where ni: "set_at (nearest_index s) i ?i0 = Some ni"
        and "invalidate (s\<lparr>nearest_index := ni\<rparr>) i = Some s'"
        by (auto simp: Let_def split: Option.bind_splits)
      from invalidate_SomeD [OF this(2)] obtain v where v: "s' = s\<lparr>nearest_index := ni, validate := v\<rparr>"
        "at_idx v i = Some False" "\<forall>k. k \<noteq> i \<longrightarrow> at_idx v k = at_idx (validate s) k"
        by auto
      show ?thesis
        using v utl set_at_SomeD [OF ni] True
        by (simp add: position_frame_def base_frame_def window_preds at_idx_length)
    next
      case i0: False
      with False run obtain index ni nearest where ni: "set_at (nearest_index s) i index = Some ni"
        and nearest: "at_idx utl index = Some nearest"
        and rest: "(if \<bar>t - nearest\<bar> > time_interval s then invalidate (s\<lparr>nearest_index := ni\<rparr>) i
           else do {
             s \<leftarrow> Position_build_window i index (s\<lparr>nearest_index := ni\<rparr>);
             tp \<leftarrow> at_idx (time_period_list s) i;
             if int (length tp) \<noteq> interpolation_number s then invalidate s i
             else Position_evaluate t i index nearest s
           }) = Some s'"
        by (auto simp: Let_def split: Option.bind_splits if_splits)
      let ?s1 = "s\<lparr>nearest_index := ni\<rparr>"
      note ni' = set_at_SomeD [OF ni]
      show ?thesis
      proof (cases "\<bar>t - nearest\<bar> > time_interval s")
        case True
        then have "invalidate ?s1 i = Some s'" using rest by simp
        from invalidate_SomeD [OF this] obtain v where v: "s' = s\<lparr>nearest_index := ni, validate := v\<rparr>"
          "at_idx v i = Some False" "\<forall>k. k \<noteq> i \<longrightarrow> at_idx v k = at_idx (validate s) k"
          by auto
        show ?thesis
          using v utl ni' True nearest
          by (simp add: position_frame_def base_frame_def window_preds)
      next
        case near: False
        with rest obtain s2 tp where s2: "Position_build_window i index ?s1 = Some s2"
          and tp: "at_idx (time_period_list s2) i = Some tp"
          and rest2: "(if int (length tp) \<noteq> interpolation_number s2 then invalidate s2 i
               else Position_evaluate t i index nearest s2) = Some s'"
          by (auto split: Option.bind_splits)
        from Position_build_window_only [OF s2] obtain a b c
          where w: "s2 = s\<lparr>nearest_index := ni, time_period_list := a, ecef := b, eci := c\<rparr>"
            "\<forall>k. k \<noteq> i \<longrightarrow> at_idx a k = at_idx (time_period_list s) k \<and>
                 at_idx b k = at_idx (ecef s) k \<and> at_idx c k = at_idx (eci s) k"
          by (auto simp: position_window_only_def)
        show ?thesis
        proof (cases "int (length tp) \<noteq> interpolation_number s2")
          case True
          then have "invalidate s2 i = Some s'" using rest2 by simp
          from invalidate_SomeD [OF this] obtain v where v: "s' = s2\<lparr>validate := v\<rparr>"
            "at_idx v i = Some False" "\<forall>k. k \<noteq> i \<longrightarrow> at_idx v k = at_idx (validate s2) k"
            by auto
          show ?thesis
            using v w utl ni' True tp
            by (simp add: position_frame_def base_frame_def window_preds)
        next
          case full: False
          then have "Position_evaluate t i index nearest s2 = Some s'" using rest2 by simp
          from Position_evaluate_SomeD [OF this] obtain v pe pc
            where e: "s' = s2\<lparr>validate := v, position_ecef_m := pe, position_eci_m := pc\<rparr>"
              "at_idx v i = Some (window_span_ok 3 s2 i)"
              "\<forall>k. k \<noteq> i \<longrightarrow> at_idx v k = at_idx (validate s2) k \<and>
                 at_idx pe k = at_idx (position_ecef_m s2) k \<and> at_idx pc k = at_idx (position_eci_m s2) k"
              "window_span_ok 3 s2 i \<and> \<bar>t - nearest\<bar> < 1 / 10000 \<longrightarrow>
                 at_idx pe i \<noteq> None \<and> at_idx pc i \<noteq> None \<and>
                 at_idx pe i = at_idx (time_series_position_ecef_m s2) i \<bind> (\<lambda>series. at_idx series index) \<and>
                 at_idx pc i = at_idx (time_series_position_eci_m s2) i \<bind> (\<lambda>series. at_idx series index)"
            by blast
          show ?thesis
            using e w utl ni' full tp near nearest
            by (auto simp: position_frame_def base_frame_def window_preds)
        qed
      qed
    qed
  qed
qed


lemma Position_advance_SomeD:
  assumes "Position_advance t i utl index s = Some (index', s')"
    and "at_idx (nearest_index s) i = Some index"
  shows "\<exists>ni a b c. s' = s\<lparr>nearest_index := ni, time_period_list := a, ecef := b, eci := c\<rparr> \<and>
      (\<forall>k. k \<noteq> i \<longrightarrow> at_idx ni k = at_idx (nearest_index s) k \<and>
            at_idx a k = at_idx (time_period_list s) k \<and>
            at_idx b k = at_idx (ecef s) k \<and> at_idx c k = at_idx (eci s) k) \<and>
      at_idx ni i = Some index' \<and> index' = (if closer_in utl index t then index + 1 else index)"
proof (cases "closer_in utl index t")
  case False
  then have "index' = index" "s' = s"
    using assms(1)
    by (auto simp: Position_advance_def closer_in_def split: if_splits Option.bind_splits option.splits)
  then have "s' = s\<lparr>nearest_index := nearest_index s, time_period_list := time_period_list s,
      ecef := ecef s, eci := eci s\<rparr>"
    by simp
  with False assms(2) \<open>index' = index\<close> show ?thesis
    by (intro exI [of _ "nearest_index s"] exI [of _ "time_period_list s"] exI [of _ "ecef s"] exI [of _ "eci s"])
       simp
next
  case True
  then have "index + 1 < int (length utl)"
    by (auto simp: closer_in_def at_idx_def split: option.splits if_splits)
  from True obtain pre post where pp: "at_idx utl index = Some pre" "at_idx utl (index + 1) = Some post"
    "\<bar>t - post\<bar> < \<bar>t - pre\<bar>"
    by (auto simp: closer_in_def split: option.splits)
  have run: "do {
          ni \<leftarrow> set_at (nearest_index s) i (index + 1);
          tpl \<leftarrow> set_at (time_period_list s) i [];
          ecef' \<leftarrow> set_at (ecef s) i [];
          eci' \<leftarrow> set_at (eci s) i [];
          s \<leftarrow> Position_build_window i (index + 1)
                 (s\<lparr>nearest_index := ni, time_period_list := tpl, ecef := ecef', eci := eci'\<rparr>);
          Some (index + 1, s)
        } = Some (index', s')"
    using assms(1) pp \<open>index + 1 < int (length utl)\<close> unfolding Position_advance_def Let_def
    by simp
  obtain ni where ni: "set_at (nearest_index s) i (index + 1) = Some ni"
    using run by (cases "set_at (nearest_index s) i (index + 1)") simp_all
  obtain a0 where a0: "set_at (time_period_list s) i [] = Some a0"
    using run ni by (cases "set_at (time_period_list s) i []") simp_all
  obtain b0 where b0: "set_at (ecef s) i [] = Some b0"
    using run ni a0 by (cases "set_at (ecef s) i []") simp_all
  obtain c0 where c0: "set_at (eci s) i [] = Some c0"
    using run ni a0 b0 by (cases "set_at (eci s) i []") simp_all
  let ?s1 = "s\<lparr>nearest_index := ni, time_period_list := a0, ecef := b0, eci := c0\<rparr>"
  obtain s2 where s2: "Position_build_window i (index + 1) ?s1 = Some s2"
    using run ni a0 b0 c0 by (cases "Position_build_window i (index + 1) ?s1") simp_all
  have r: "index' = index + 1" "s' = s2"
    using run ni a0 b0 c0 s2 by simp_all
  from Position_build_window_only [OF s2] obtain a b c
    where w: "s2 = s\<lparr>nearest_index := ni, time_period_list := a, ecef := b, eci := c\<rparr>"
      "\<forall>k. k \<noteq> i \<longrightarrow> at_idx a k = at_idx a0 k \<and> at_idx b k = at_idx b0 k \<and> at_idx c k = at_idx c0 k"
    by (auto simp: position_window_only_def)
  show ?thesis
    using w r True set_at_SomeD [OF ni] set_at_SomeD [OF a0] set_at_SomeD [OF b0] set_at_SomeD [OF c0]
    by (intro exI [of _ ni] exI [of _ a] exI [of _ b] exI [of _ c]) simp
qed


lemma closer_in_Nil: "\<not> closer_in [] index t"
  by (simp add: closer_in_def at_idx_def)

lemma closer_in_length: "\<not> closer_in utl (int (length utl)) t"
  by (simp add: closer_in_def at_idx_def)

lemma Position_Update_sat_step:
  assumes "Position_Update_sat t i s = Some s'"
  shows "position_frame i s s' \<and> flag_matches_window 3 s' i t \<and>
     (at_idx (validate s') i = Some True \<longrightarrow> (\<forall>tn. nearest_time s' i = Some tn \<longrightarrow> \<bar>t - tn\<bar> < 1 / 10000 \<longrightarrow>
        position_holds_sample s' i)) \<and>
     at_idx (nearest_index s') i =
       (if next_sample_closer s i t then map_option (\<lambda>index. index + 1) (at_idx (nearest_index s) i)
        else at_idx (nearest_index s) i)"
proof -
  from assms obtain utl where utl: "at_idx (unix_time_list s) i = Some utl"
    by (auto simp: Position_Update_sat_def split: Option.bind_splits)
  note run = assms [unfolded Position_Update_sat_def, simplified utl Option.bind.simps]
  show ?thesis
  proof (cases "utl = []")
    case True
    then have "invalidate s i = Some s'" using run by simp
    from invalidate_SomeD [OF this] obtain v where v: "s' = s\<lparr>validate := v\<rparr>"
      "at_idx v i = Some False" "\<forall>k. k \<noteq> i \<longrightarrow> at_idx v k = at_idx (validate s) k"
      by blast
    have "at_idx utl k = None" for k using True by (simp add: at_idx_def)
    then show ?thesis
      using v utl True
      by (simp add: position_frame_def base_frame_def window_preds next_sample_closer_def closer_in_Nil
          split: Option.bind_splits option.splits)
  next
    case False
    with run obtain index where index: "at_idx (nearest_index s) i = Some index"
      by (auto split: Option.bind_splits)
    note run2 = run [simplified False index Option.bind.simps if_False]
    show ?thesis
    proof (cases "index = int (length utl)")
      case True
      then have "invalidate s i = Some s'" using run2 by simp
      from invalidate_SomeD [OF this] obtain v where v: "s' = s\<lparr>validate := v\<rparr>"
        "at_idx v i = Some False" "\<forall>k. k \<noteq> i \<longrightarrow> at_idx v k = at_idx (validate s) k"
        by blast
      show ?thesis
        using v utl index True
        by (simp add: position_frame_def base_frame_def window_preds next_sample_closer_def
            closer_in_length at_idx_length)
    next
      case ne: False
      with run2 obtain index' s1 where adv: "Position_advance t i utl index s = Some (index', s1)"
        by (cases "Position_advance t i utl index s") auto
      from Position_advance_SomeD [OF adv index] obtain ni a b c
        where s1: "s1 = s\<lparr>nearest_index := ni, time_period_list := a, ecef := b, eci := c\<rparr>"
          and fr: "\<forall>k. k \<noteq> i \<longrightarrow> at_idx ni k = at_idx (nearest_index s) k \<and>
            at_idx a k = at_idx (time_period_list s) k \<and>
            at_idx b k = at_idx (ecef s) k \<and> at_idx c k = at_idx (eci s) k"
          and ni: "at_idx ni i = Some index'"
          and index': "index' = (if closer_in utl index t then index + 1 else index)"
        by blast
      have closer: "next_sample_closer s i t = closer_in utl index t"
        by (simp add: next_sample_closer_def utl index)
      from run2 ne adv obtain nearest where nearest: "at_idx utl index' = Some nearest"
        by (cases "at_idx utl index'") auto
      note run3 = run2 [simplified ne adv nearest Option.bind.simps if_False prod.case]
      show ?thesis
      proof (cases "\<bar>t - nearest\<bar> > time_interval s1")
        case True
        then have "invalidate s1 i = Some s'" using run3 by simp
        from invalidate_SomeD [OF this] obtain v where v: "s' = s1\<lparr>validate := v\<rparr>"
          "at_idx v i = Some False" "\<forall>k. k \<noteq> i \<longrightarrow> at_idx v k = at_idx (validate s1) k"
          by blast
        show ?thesis
          using v s1 fr ni utl index True nearest closer index'
          by (simp add: position_frame_def base_frame_def window_preds)
      next
        case near: False
        with run3 obtain tp where tp: "at_idx (time_period_list s1) i = Some tp"
          by (cases "at_idx (time_period_list s1) i") auto
        note run4 = run3 [simplified near tp Option.bind.simps if_False]
        show ?thesis
        proof (cases "int (length tp) \<noteq> interpolation_number s1")
          case True
          then have "invalidate s1 i = Some s'" using run4 by simp
          from invalidate_SomeD [OF this] obtain v where v: "s' = s1\<lparr>validate := v\<rparr>"
            "at_idx v i = Some False" "\<forall>k. k \<noteq> i \<longrightarrow> at_idx v k = at_idx (validate s1) k"
            by blast
          show ?thesis
            using v s1 fr ni utl index True nearest closer index' tp
            by (simp add: position_frame_def base_frame_def window_preds)
        next
          case full: False
          then have "Position_evaluate t i index' nearest s1 = Some s'" using run4 by simp
          from Position_evaluate_SomeD [OF this] obtain v pe pc
            where e: "s' = s1\<lparr>validate := v, position_ecef_m := pe, position_eci_m := pc\<rparr>"
              "at_idx v i = Some (window_span_ok 3 s1 i)"
              "\<forall>k. k \<noteq> i \<longrightarrow> at_idx v k = at_idx (validate s1) k \<and>
                 at_idx pe k = at_idx (position_ecef_m s1) k \<and> at_idx pc k = at_idx (position_eci_m s1) k"
              "window_span_ok 3 s1 i \<and> \<bar>t - nearest\<bar> < 1 / 10000 \<longrightarrow>
                 at_idx pe i \<noteq> None \<and> at_idx pc i \<noteq> None \<and>
                 at_idx pe i = at_idx (time_series_position_ecef_m s1) i \<bind> (\<lambda>series. at_idx series index') \<and>
                 at_idx pc i = at_idx (time_series_position_eci_m s1) i \<bind> (\<lambda>series. at_idx series index')"
            by blast
          show ?thesis
            using e s1 fr ni utl index full nearest closer index' tp near
            by (auto simp: position_frame_def base_frame_def window_preds)
        qed
      qed
    qed
  qed
qed


lemma position_frame_view:
  "position_frame j s s' \<Longrightarrow> i \<noteq> j \<Longrightarrow> position_view s i = position_view s' i"
  by (simp add: position_frame_def base_frame_def position_view_def base_view_def)

lemma position_view_cong:
  assumes "position_view a i = position_view b i"
  shows "flag_matches_window k a i t = flag_matches_window k b i t"
    and "at_idx (validate a) i = at_idx (validate b) i"
    and "nearest_time a i = nearest_time b i"
    and "position_holds_sample a i = position_holds_sample b i"
    and "at_idx (nearest_index a) i = at_idx (nearest_index b) i"
    and "next_sample_closer a i t = next_sample_closer b i t"
proof -
  have eqs: "at_idx (unix_time_list a) i = at_idx (unix_time_list b) i"
    "at_idx (time_period_list a) i = at_idx (time_period_list b) i"
    "at_idx (validate a) i = at_idx (validate b) i"
    "at_idx (nearest_index a) i = at_idx (nearest_index b) i"
    "time_interval a = time_interval b" "interpolation_number a = interpolation_number b"
    "at_idx (time_series_position_ecef_m a) i = at_idx (time_series_position_ecef_m b) i"
    "at_idx (time_series_position_eci_m a) i = at_idx (time_series_position_eci_m b) i"
    "at_idx (position_ecef_m a) i = at_idx (position_ecef_m b) i"
    "at_idx (position_eci_m a) i = at_idx (position_eci_m b) i"
    using assms by (simp_all add: position_view_def base_view_def)
  show "flag_matches_window k a i t = flag_matches_window k b i t"
    and "at_idx (validate a) i = at_idx (validate b) i"
    and "nearest_time a i = nearest_time b i"
    and "position_holds_sample a i = position_holds_sample b i"
    and "at_idx (nearest_index a) i = at_idx (nearest_index b) i"
    and "next_sample_closer a i t = next_sample_closer b i t"
    unfolding window_preds next_sample_closer_def eqs by (rule refl)+
qed

lemma Position_SetUp_result:
  assumes "Position_SetUp s t w = Some s'" and "0 \<le> i" and "i < all_sat_num"
  shows "flag_matches_window 3 s' i t"
    and "at_idx (validate s') i = Some True \<Longrightarrow> nearest_time s' i = Some tn \<Longrightarrow> \<bar>t - tn\<bar> < 1 / 10000
      \<Longrightarrow> position_holds_sample s' i"
proof -
  let ?R = "\<lambda>(a::GnssSatellitePosition) b. flag_matches_window 3 b i t \<and>
     (at_idx (validate b) i = Some True \<longrightarrow> (\<forall>tn. nearest_time b i = Some tn \<longrightarrow> \<bar>t - tn\<bar> < 1 / 10000 \<longrightarrow>
        position_holds_sample b i))"
  let ?E = "\<lambda>a b. position_view a i = position_view b i"
  from assms(1) obtain s0 where run: "for_each (Position_SetUp_sat t) sat_ids s0 = Some s'"
    by (auto simp: Position_SetUp_def Let_def)
  have "?R s0 s'"
  proof (rule for_each_relate [where R = ?R and E = ?E, OF run])
    show "i \<in> set sat_ids" "distinct sat_ids"
      using assms(2,3) by (simp_all add: sat_ids_props)
    show "?R a b" if "Position_SetUp_sat t i a = Some b" for a b
      using Position_SetUp_sat_step [OF that] by simp
    show "?E a b" if "j \<noteq> i" "Position_SetUp_sat t j a = Some b" for j a b
      using Position_SetUp_sat_step [OF that(2)] that(1) by (blast intro: position_frame_view)
    show "?R a c" if "?E a b" "?R b c" for a b c
      using that by simp
    show "?R a c" if "?R a b" "?E b c" for a b c
      using that position_view_cong [OF that(2)] by simp
  qed simp_all
  then show "flag_matches_window 3 s' i t"
    and "at_idx (validate s') i = Some True \<Longrightarrow> nearest_time s' i = Some tn \<Longrightarrow> \<bar>t - tn\<bar> < 1 / 10000
      \<Longrightarrow> position_holds_sample s' i"
    by simp_all
qed

lemma Position_Update_result:
  assumes "Position_Update s t = Some s'" and "0 \<le> i" and "i < all_sat_num"
  shows "flag_matches_window 3 s' i t"
    and "at_idx (validate s') i = Some True \<Longrightarrow> nearest_time s' i = Some tn \<Longrightarrow> \<bar>t - tn\<bar> < 1 / 10000
      \<Longrightarrow> position_holds_sample s' i"
    and "at_idx (nearest_index s') i =
       (if next_sample_closer s i t then map_option (\<lambda>index. index + 1) (at_idx (nearest_index s) i)
        else at_idx (nearest_index s) i)"
proof -
  let ?R = "\<lambda>(a::GnssSatellitePosition) b. flag_matches_window 3 b i t \<and>
     (at_idx (validate b) i = Some True \<longrightarrow> (\<forall>tn. nearest_time b i = Some tn \<longrightarrow> \<bar>t - tn\<bar> < 1 / 10000 \<longrightarrow>
        position_holds_sample b i)) \<and>
     at_idx (nearest_index b) i =
       (if next_sample_closer a i t then map_option (\<lambda>index. index + 1) (at_idx (nearest_index a) i)
        else at_idx (nearest_index a) i)"
  let ?E = "\<lambda>a b. position_view a i = position_view b i"
  have "?R s s'"
  proof (rule for_each_relate [where R = ?R and E = ?E, OF assms(1) [unfolded Position_Update_def]])
    show "i \<in> set sat_ids" "distinct sat_ids"
      using assms(2,3) by (simp_all add: sat_ids_props)
    show "?R a b" if "Position_Update_sat t i a = Some b" for a b
      using Position_Update_sat_step [OF that] by simp
    show "?E a b" if "j \<noteq> i" "Position_Update_sat t j a = Some b" for j a b
      using Position_Update_sat_step [OF that(2)] that(1) by (blast intro: position_frame_view)
    show "?R a c" if "?E a b" "?R b c" for a b c
      using that position_view_cong [OF that(1)] by simp
    show "?R a c" if "?R a b" "?E b c" for a b c
      using that position_view_cong [OF that(2)] by simp
  qed simp_all
  then show "flag_matches_window 3 s' i t"
    and "at_idx (validate s') i = Some True \<Longrightarrow> nearest_time s' i = Some tn \<Longrightarrow> \<bar>t - tn\<bar> < 1 / 10000
      \<Longrightarrow> position_holds_sample s' i"
    and "at_idx (nearest_index s') i =
       (if next_sample_closer s i t then map_option (\<lambda>index. index + 1) (at_idx (nearest_index s) i)
        else at_idx (nearest_index s) i)"
    by simp_all
qed





subsection \<open>The clock track, satellite by satellite\<close>

lemmas clock_preds = flag_matches_window_def window_full_def window_span_ok_def nearest_within_def
  nearest_time_def clock_holds_sample_def nearest_clock_def

lemma Clock_push_sample_frame:
  assumes "Clock_push_sample i index j s = Some s'"
  shows "\<exists>a b. s' = s\<lparr>time_period_list := a, clock_bias := b\<rparr> \<and>
           (\<forall>k. k \<noteq> i \<longrightarrow> at_idx a k = at_idx (time_period_list s) k \<and>
                 at_idx b k = at_idx (clock_bias s) k)"
proof (cases "Clock_push_sample i index j s = Some s")
  case True
  then have "s' = s\<lparr>time_period_list := time_period_list s, clock_bias := clock_bias s\<rparr>"
    using assms by simp
  then show ?thesis by blast
next
  case False
  with assms obtain x a y b where sa: "set_at (time_period_list s) i x = Some a"
    and sb: "set_at (clock_bias s) i y = Some b"
    and s': "s' = s\<lparr>time_period_list := a, clock_bias := b\<rparr>"
    by (auto simp: Clock_push_sample_def Let_def split: Option.bind_splits if_splits)
  have "\<forall>k. k \<noteq> i \<longrightarrow> at_idx a k = at_idx (time_period_list s) k \<and> at_idx b k = at_idx (clock_bias s) k"
    by (simp add: set_at_SomeD(2) [OF sa] set_at_SomeD(2) [OF sb])
  with s' show ?thesis by blast
qed

lemma clock_window_only_refl: "clock_window_only i s s"
  unfolding clock_window_only_def
  by (rule exI [of _ "time_period_list s"], rule exI [of _ "clock_bias s"]) simp

lemma clock_window_only_trans:
  "clock_window_only i a b \<Longrightarrow> clock_window_only i b c \<Longrightarrow> clock_window_only i a c"
  unfolding clock_window_only_def by (elim exE conjE) (simp, blast)

lemma Clock_build_window_only:
  assumes "Clock_build_window i index s = Some s'"
  shows "clock_window_only i s s'"
proof (rule for_each_preserves [OF assms [unfolded Clock_build_window_def]])
  show "clock_window_only i a b" if "Clock_push_sample i index j a = Some b" for j a b
    using Clock_push_sample_frame [OF that] by (simp add: clock_window_only_def)
qed (auto intro: clock_window_only_refl clock_window_only_trans)

lemma Clock_evaluate_SomeD:
  assumes "Clock_evaluate t i index nearest s = Some s'"
  shows "\<exists>v co. s' = s\<lparr>validate := v, clock_offset_m := co\<rparr> \<and>
      at_idx v i = Some (window_span_ok 0 s i) \<and>
      (\<forall>k. k \<noteq> i \<longrightarrow> at_idx v k = at_idx (validate s) k \<and>
            at_idx co k = at_idx (clock_offset_m s) k) \<and>
      (window_span_ok 0 s i \<and> \<bar>t - nearest\<bar> < 1 / 10000 \<longrightarrow>
         at_idx co i \<noteq> None \<and>
         at_idx co i = at_idx (time_series_clock_offset_m s) i \<bind> (\<lambda>series. at_idx series index))"
proof -
  from assms obtain tp b f where tp: "at_idx (time_period_list s) i = Some tp"
    and b: "back_of tp = Some b" and f: "front_of tp = Some f"
    by (auto simp: Clock_evaluate_def split: Option.bind_splits)
  let ?long = "b - f > time_interval s * of_int (interpolation_number s - 1) + 1 / 10000"
  have span: "window_span_ok 0 s i \<longleftrightarrow> \<not> ?long"
    using b f by (auto simp: window_span_ok_def tp back_of_def front_of_def split: if_splits list.splits)
  show ?thesis
  proof (cases ?long)
    case True
    then have "invalidate s i = Some s'"
      using assms by (simp add: Clock_evaluate_def tp b f Let_def)
    from invalidate_SomeD [OF this] obtain v where v: "s' = s\<lparr>validate := v\<rparr>"
      "at_idx v i = Some False" "\<forall>k. k \<noteq> i \<longrightarrow> at_idx v k = at_idx (validate s) k"
      by blast
    show ?thesis
      by (rule exI [of _ v], rule exI [of _ "clock_offset_m s"]) (use v span True in simp)
  next
    case False
    with assms obtain v co x where v: "set_at (validate s) i True = Some v"
      and co: "set_at (clock_offset_m s) i x = Some co"
      and s': "s' = s\<lparr>validate := v, clock_offset_m := co\<rparr>"
      and ex: "\<bar>t - nearest\<bar> < 1 / 10000 \<longrightarrow>
         (\<exists>series. at_idx (time_series_clock_offset_m s) i = Some series \<and> at_idx series index = Some x)"
      by (auto simp: Clock_evaluate_def tp b f Let_def split: Option.bind_splits if_splits)
    show ?thesis
      by (rule exI [of _ v], rule exI [of _ co])
         (use s' span False ex set_at_SomeD [OF v] set_at_SomeD [OF co] in auto)
  qed
qed


lemma Clock_SetUp_sat_step:
  assumes "Clock_SetUp_sat t i s = Some s'"
  shows "clock_frame i s s' \<and> flag_matches_window 0 s' i t \<and>
     (at_idx (validate s') i = Some True \<longrightarrow> (\<forall>tn. nearest_time s' i = Some tn \<longrightarrow> \<bar>t - tn\<bar> < 1 / 10000 \<longrightarrow>
        clock_holds_sample s' i))"
proof -
  from assms obtain utl where utl: "at_idx (unix_time_list s) i = Some utl"
    by (auto simp: Clock_SetUp_sat_def split: Option.bind_splits)
  note run = assms [unfolded Clock_SetUp_sat_def, simplified utl Option.bind.simps]
  show ?thesis
  proof (cases "utl = []")
    case True
    then have "invalidate s i = Some s'" using run by simp
    from invalidate_SomeD [OF this] obtain v where v: "s' = s\<lparr>validate := v\<rparr>"
      "at_idx v i = Some False" "\<forall>k. k \<noteq> i \<longrightarrow> at_idx v k = at_idx (validate s) k"
      by blast
    have "at_idx utl k = None" for k using True by (simp add: at_idx_def)
    then show ?thesis
      using v utl by (simp add: clock_frame_def base_frame_def clock_preds split: Option.bind_splits)
  next
    case False
    let ?i0 = "lower_bound utl t"
    show ?thesis
    proof (cases "?i0 = int (length utl)")
      case True
      with False run obtain s1 ni where "invalidate s i = Some s1"
        and ni: "set_at (nearest_index s1) i ?i0 = Some ni" and s': "s' = s1\<lparr>nearest_index := ni\<rparr>"
        by (auto simp: Let_def split: Option.bind_splits)
      from invalidate_SomeD [OF this(1)] obtain v where v: "s1 = s\<lparr>validate := v\<rparr>"
        "at_idx v i = Some False" "\<forall>k. k \<noteq> i \<longrightarrow> at_idx v k = at_idx (validate s) k"
        by auto
      show ?thesis
        using v s' utl set_at_SomeD [OF ni] True
        by (simp add: clock_frame_def base_frame_def clock_preds at_idx_length)
    next
      case i0: False
      with False run obtain index ni nearest where ni: "set_at (nearest_index s) i index = Some ni"
        and nearest: "at_idx utl index = Some nearest"
        and rest: "(if \<bar>t - nearest\<bar> > time_interval s then invalidate (s\<lparr>nearest_index := ni\<rparr>) i
           else do {
             s \<leftarrow> Clock_build_window i index (s\<lparr>nearest_index := ni\<rparr>);
             tp \<leftarrow> at_idx (time_period_list s) i;
             if int (length tp) \<noteq> interpolation_number s then invalidate s i
             else Clock_evaluate t i index nearest s
           }) = Some s'"
        by (auto simp: Let_def split: Option.bind_splits if_splits)
      let ?s1 = "s\<lparr>nearest_index := ni\<rparr>"
      note ni' = set_at_SomeD [OF ni]
      show ?thesis
      proof (cases "\<bar>t - nearest\<bar> > time_interval s")
        case True
        then have "invalidate ?s1 i = Some s'" using rest by simp
        from invalidate_SomeD [OF this] obtain v where v: "s' = s\<lparr>nearest_index := ni, validate := v\<rparr>"
          "at_idx v i = Some False" "\<forall>k. k \<noteq> i \<longrightarrow> at_idx v k = at_idx (validate s) k"
          by auto
        show ?thesis
          using v utl ni' True nearest
          by (simp add: clock_frame_def base_frame_def clock_preds)
      next
        case near: False
        with rest obtain s2 tp where s2: "Clock_build_window i index ?s1 = Some s2"
          and tp: "at_idx (time_period_list s2) i = Some tp"
          and rest2: "(if int (length tp) \<noteq> interpolation_number s2 then invalidate s2 i
               else Clock_evaluate t i index nearest s2) = Some s'"
          by (auto split: Option.bind_splits)
        from Clock_build_window_only [OF s2] obtain a b
          where w: "s2 = s\<lparr>nearest_index := ni, time_period_list := a, clock_bias := b\<rparr>"
            "\<forall>k. k \<noteq> i \<longrightarrow> at_idx a k = at_idx (time_period_list s) k \<and>
                 at_idx b k = at_idx (clock_bias s) k"
          by (auto simp: clock_window_only_def)
        show ?thesis
        proof (cases "int (length tp) \<noteq> interpolation_number s2")
          case True
          then have "invalidate s2 i = Some s'" using rest2 by simp
          from invalidate_SomeD [OF this] obtain v where v: "s' = s2\<lparr>validate := v\<rparr>"
            "at_idx v i = Some False" "\<forall>k. k \<noteq> i \<longrightarrow> at_idx v k = at_idx (validate s2) k"
            by auto
          show ?thesis
            using v w utl ni' True tp
            by (simp add: clock_frame_def base_frame_def clock_preds)
        next
          case full: False
          then have "Clock_evaluate t i index nearest s2 = Some s'" using rest2 by simp
          from Clock_evaluate_SomeD [OF this] obtain v co
            where e: "s' = s2\<lparr>validate := v, clock_offset_m := co\<rparr>"
              "at_idx v i = Some (window_span_ok 0 s2 i)"
              "\<forall>k. k \<noteq> i \<longrightarrow> at_idx v k = at_idx (validate s2) k \<and>
                 at_idx co k = at_idx (clock_offset_m s2) k"
              "window_span_ok 0 s2 i \<and> \<bar>t - nearest\<bar> < 1 / 10000 \<longrightarrow>
                 at_idx co i \<noteq> None \<and>
                 at_idx co i = at_idx (time_series_clock_offset_m s2) i \<bind> (\<lambda>series. at_idx series index)"
            by blast
          show ?thesis
            using e w utl ni' full tp near nearest
            by (auto simp: clock_frame_def base_frame_def clock_preds; metis)
        qed
      qed
    qed
  qed
qed

lemma Clock_advance_SomeD:
  assumes "Clock_advance t i utl index s = Some (index', s')"
    and "at_idx (nearest_index s) i = Some index"
  shows "\<exists>ni a b. s' = s\<lparr>nearest_index := ni, time_period_list := a, clock_bias := b\<rparr> \<and>
      (\<forall>k. k \<noteq> i \<longrightarrow> at_idx ni k = at_idx (nearest_index s) k \<and>
            at_idx a k = at_idx (time_period_list s) k \<and>
            at_idx b k = at_idx (clock_bias s) k) \<and>
      at_idx ni i = Some index' \<and> index' = (if closer_in utl index t then index + 1 else index)"
proof (cases "closer_in utl index t")
  case False
  then have "index' = index" "s' = s"
    using assms(1)
    by (auto simp: Clock_advance_def closer_in_def split: if_splits Option.bind_splits option.splits)
  then have "s' = s\<lparr>nearest_index := nearest_index s, time_period_list := time_period_list s,
      clock_bias := clock_bias s\<rparr>"
    by simp
  with False assms(2) \<open>index' = index\<close> show ?thesis
    by (intro exI [of _ "nearest_index s"] exI [of _ "time_period_list s"] exI [of _ "clock_bias s"])
       simp
next
  case True
  then have "index + 1 < int (length utl)"
    by (auto simp: closer_in_def at_idx_def split: option.splits if_splits)
  from True obtain pre post where pp: "at_idx utl index = Some pre" "at_idx utl (index + 1) = Some post"
    "\<bar>t - post\<bar> < \<bar>t - pre\<bar>"
    by (auto simp: closer_in_def split: option.splits)
  have run: "do {
          ni \<leftarrow> set_at (nearest_index s) i (index + 1);
          tpl \<leftarrow> set_at (time_period_list s) i [];
          cb \<leftarrow> set_at (clock_bias s) i [];
          s \<leftarrow> Clock_build_window i (index + 1)
                 (s\<lparr>nearest_index := ni, time_period_list := tpl, clock_bias := cb\<rparr>);
          Some (index + 1, s)
        } = Some (index', s')"
    using assms(1) pp \<open>index + 1 < int (length utl)\<close> unfolding Clock_advance_def Let_def
    by simp
  obtain ni where ni: "set_at (nearest_index s) i (index + 1) = Some ni"
    using run by (cases "set_at (nearest_index s) i (index + 1)") simp_all
  obtain a0 where a0: "set_at (time_period_list s) i [] = Some a0"
    using run ni by (cases "set_at (time_period_list s) i []") simp_all
  obtain b0 where b0: "set_at (clock_bias s) i [] = Some b0"
    using run ni a0 by (cases "set_at (clock_bias s) i []") simp_all
  let ?s1 = "s\<lparr>nearest_index := ni, time_period_list := a0, clock_bias := b0\<rparr>"
  obtain s2 where s2: "Clock_build_window i (index + 1) ?s1 = Some s2"
    using run ni a0 b0 by (cases "Clock_build_window i (index + 1) ?s1") simp_all
  have r: "index' = index + 1" "s' = s2"
    using run ni a0 b0 s2 by simp_all
  from Clock_build_window_only [OF s2] obtain a b
    where w: "s2 = s\<lparr>nearest_index := ni, time_period_list := a, clock_bias := b\<rparr>"
      "\<forall>k. k \<noteq> i \<longrightarrow> at_idx a k = at_idx a0 k \<and> at_idx b k = at_idx b0 k"
    by (auto simp: clock_window_only_def)
  show ?thesis
    using w r True set_at_SomeD [OF ni] set_at_SomeD [OF a0] set_at_SomeD [OF b0]
    by (intro exI [of _ ni] exI [of _ a] exI [of _ b]) simp
qed

lemma Clock_Update_sat_step:
  assumes "Clock_Update_sat t i s = Some s'"
  shows "clock_frame i s s' \<and> flag_matches_window 0 s' i t \<and>
     (at_idx (validate s') i = Some True \<longrightarrow> (\<forall>tn. nearest_time s' i = Some tn \<longrightarrow> \<bar>t - tn\<bar> < 1 / 10000 \<longrightarrow>
        clock_holds_sample s' i)) \<and>
     at_idx (nearest_index s') i =
       (if next_sample_closer s i t then map_option (\<lambda>index. index + 1) (at_idx (nearest_index s) i)
        else at_idx (nearest_index s) i)"
proof -
  from assms obtain utl where utl: "at_idx (unix_time_list s) i = Some utl"
    by (auto simp: Clock_Update_sat_def split: Option.bind_splits)
  note run = assms [unfolded Clock_Update_sat_def, simplified utl Option.bind.simps]
  show ?thesis
  proof (cases "utl = []")
    case True
    then have "invalidate s i = Some s'" using run by simp
    from invalidate_SomeD [OF this] obtain v where v: "s' = s\<lparr>validate := v\<rparr>"
      "at_idx v i = Some False" "\<forall>k. k \<noteq> i \<longrightarrow> at_idx v k = at_idx (validate s) k"
      by blast
    have "at_idx utl k = None" for k using True by (simp add: at_idx_def)
    then show ?thesis
      using v utl True
      by (simp add: clock_frame_def base_frame_def clock_preds next_sample_closer_def closer_in_Nil
          split: Option.bind_splits option.splits)
  next
    case False
    with run obtain index where index: "at_idx (nearest_index s) i = Some index"
      by (auto split: Option.bind_splits)
    note run2 = run [simplified False index Option.bind.simps if_False]
    show ?thesis
    proof (cases "index = int (length utl)")
      case True
      then have "invalidate s i = Some s'" using run2 by simp
      from invalidate_SomeD [OF this] obtain v where v: "s' = s\<lparr>validate := v\<rparr>"
        "at_idx v i = Some False" "\<forall>k. k \<noteq> i \<longrightarrow> at_idx v k = at_idx (validate s) k"
        by blast
      show ?thesis
        using v utl index True
        by (simp add: clock_frame_def base_frame_def clock_preds next_sample_closer_def
            closer_in_length at_idx_length)
    next
      case ne: False
      with run2 obtain index' s1 where adv: "Clock_advance t i utl index s = Some (index', s1)"
        by (cases "Clock_advance t i utl index s") auto
      from Clock_advance_SomeD [OF adv index] obtain ni a b
        where s1: "s1 = s\<lparr>nearest_index := ni, time_period_list := a, clock_bias := b\<rparr>"
          and fr: "\<forall>k. k \<noteq> i \<longrightarrow> at_idx ni k = at_idx (nearest_index s) k \<and>
            at_idx a k = at_idx (time_period_list s) k \<and>
            at_idx b k = at_idx (clock_bias s) k"
          and ni: "at_idx ni i = Some index'"
          and index': "index' = (if closer_in utl index t then index + 1 else index)"
        by blast
      have closer: "next_sample_closer s i t = closer_in utl index t"
        by (simp add: next_sample_closer_def utl index)
      from run2 ne adv obtain tp where tp: "at_idx (time_period_list s1) i = Some tp"
        by (cases "at_idx (time_period_list s1) i") auto
      note run3 = run2 [simplified ne adv tp Option.bind.simps if_False prod.case]
      show ?thesis
      proof (cases "int (length tp) \<noteq> interpolation_number s1")
        case True
        then have "invalidate s1 i = Some s'" using run3 by simp
        from invalidate_SomeD [OF this] obtain v where v: "s' = s1\<lparr>validate := v\<rparr>"
          "at_idx v i = Some False" "\<forall>k. k \<noteq> i \<longrightarrow> at_idx v k = at_idx (validate s1) k"
          by blast
        show ?thesis
          using v s1 fr ni utl index True closer index' tp
          by (simp add: clock_frame_def base_frame_def clock_preds)
      next
        case full: False
        with run3 obtain nearest where nearest: "at_idx utl index' = Some nearest"
          by (cases "at_idx utl index'") auto
        note run4 = run3 [simplified full nearest Option.bind.simps if_False]
        show ?thesis
        proof (cases "\<bar>t - nearest\<bar> > time_interval s1")
          case True
          then have "invalidate s1 i = Some s'" using run4 by simp
          from invalidate_SomeD [OF this] obtain v where v: "s' = s1\<lparr>validate := v\<rparr>"
            "at_idx v i = Some False" "\<forall>k. k \<noteq> i \<longrightarrow> at_idx v k = at_idx (validate s1) k"
            by blast
          show ?thesis
            using v s1 fr ni utl index True nearest closer index' tp
            by (simp add: clock_frame_def base_frame_def clock_preds)
        next
          case near: False
          then have "Clock_evaluate t i index' nearest s1 = Some s'" using run4 by simp
          from Clock_evaluate_SomeD [OF this] obtain v co
            where e: "s' = s1\<lparr>validate := v, clock_offset_m := co\<rparr>"
              "at_idx v i = Some (window_span_ok 0 s1 i)"
              "\<forall>k. k \<noteq> i \<longrightarrow> at_idx v k = at_idx (validate s1) k \<and>
                 at_idx co k = at_idx (clock_offset_m s1) k"
              "window_span_ok 0 s1 i \<and> \<bar>t - nearest\<bar> < 1 / 10000 \<longrightarrow>
                 at_idx co i \<noteq> None \<and>
                 at_idx co i = at_idx (time_series_clock_offset_m s1) i \<bind> (\<lambda>series. at_idx series index')"
            by blast
          show ?thesis
            using e s1 fr ni utl index full nearest closer index' tp near
            by (auto simp: clock_frame_def base_frame_def clock_preds; metis)
        qed
      qed
    qed
  qed
qed


lemma clock_frame_view:
  "clock_frame j s s' \<Longrightarrow> i \<noteq> j \<Longrightarrow> clock_view s i = clock_view s' i"
  by (simp add: clock_frame_def base_frame_def clock_view_def base_view_def)

lemma clock_view_cong:
  assumes "clock_view a i = clock_view b i"
  shows "flag_matches_window k a i t = flag_matches_window k b i t"
    and "at_idx (validate a) i = at_idx (validate b) i"
    and "nearest_time a i = nearest_time b i"
    and "clock_holds_sample a i = clock_holds_sample b i"
    and "at_idx (nearest_index a) i = at_idx (nearest_index b) i"
    and "next_sample_closer a i t = next_sample_closer b i t"
proof -
  have eqs: "at_idx (unix_time_list a) i = at_idx (unix_time_list b) i"
    "at_idx (time_period_list a) i = at_idx (time_period_list b) i"
    "at_idx (validate a) i = at_idx (validate b) i"
    "at_idx (nearest_index a) i = at_idx (nearest_index b) i"
    "time_interval a = time_interval b" "interpolation_number a = interpolation_number b"
    "at_idx (time_series_clock_offset_m a) i = at_idx (time_series_clock_offset_m b) i"
    "at_idx (clock_offset_m a) i = at_idx (clock_offset_m b) i"
    using assms by (simp_all add: clock_view_def base_view_def)
  show "flag_matches_window k a i t = flag_matches_window k b i t"
    and "at_idx (validate a) i = at_idx (validate b) i"
    and "nearest_time a i = nearest_time b i"
    and "clock_holds_sample a i = clock_holds_sample b i"
    and "at_idx (nearest_index a) i = at_idx (nearest_index b) i"
    and "next_sample_closer a i t = next_sample_closer b i t"
    unfolding clock_preds next_sample_closer_def eqs by (rule refl)+
qed

lemma Clock_SetUp_result:
  assumes "Clock_SetUp s t w = Some s'" and "0 \<le> i" and "i < all_sat_num"
  shows "flag_matches_window 0 s' i t"
    and "at_idx (validate s') i = Some True \<Longrightarrow> nearest_time s' i = Some tn \<Longrightarrow> \<bar>t - tn\<bar> < 1 / 10000
      \<Longrightarrow> clock_holds_sample s' i"
proof -
  let ?R = "\<lambda>(a::GnssSatelliteClock) b. flag_matches_window 0 b i t \<and>
     (at_idx (validate b) i = Some True \<longrightarrow> (\<forall>tn. nearest_time b i = Some tn \<longrightarrow> \<bar>t - tn\<bar> < 1 / 10000 \<longrightarrow>
        clock_holds_sample b i))"
  let ?E = "\<lambda>a b. clock_view a i = clock_view b i"
  from assms(1) obtain s0 where run: "for_each (Clock_SetUp_sat t) sat_ids s0 = Some s'"
    by (auto simp: Clock_SetUp_def Let_def)
  have "?R s0 s'"
  proof (rule for_each_relate [where R = ?R and E = ?E, OF run])
    show "i \<in> set sat_ids" "distinct sat_ids"
      using assms(2,3) by (simp_all add: sat_ids_props)
    show "?R a b" if "Clock_SetUp_sat t i a = Some b" for a b
      using Clock_SetUp_sat_step [OF that] by simp
    show "?E a b" if "j \<noteq> i" "Clock_SetUp_sat t j a = Some b" for j a b
      using Clock_SetUp_sat_step [OF that(2)] that(1) by (blast intro: clock_frame_view)
    show "?R a c" if "?E a b" "?R b c" for a b c
      using that by simp
    show "?R a c" if "?R a b" "?E b c" for a b c
      using that clock_view_cong [OF that(2)] by simp
  qed simp_all
  then show "flag_matches_window 0 s' i t"
    and "at_idx (validate s') i = Some True \<Longrightarrow> nearest_time s' i = Some tn \<Longrightarrow> \<bar>t - tn\<bar> < 1 / 10000
      \<Longrightarrow> clock_holds_sample s' i"
    by simp_all
qed

lemma Clock_Update_result:
  assumes "Clock_Update s t = Some s'" and "0 \<le> i" and "i < all_sat_num"
  shows "flag_matches_window 0 s' i t"
    and "at_idx (validate s') i = Some True \<Longrightarrow> nearest_time s' i = Some tn \<Longrightarrow> \<bar>t - tn\<bar> < 1 / 10000
      \<Longrightarrow> clock_holds_sample s' i"
    and "at_idx (nearest_index s') i =
       (if next_sample_closer s i t then map_option (\<lambda>index. index + 1) (at_idx (nearest_index s) i)
        else at_idx (nearest_index s) i)"
proof -
  let ?R = "\<lambda>(a::GnssSatelliteClock) b. flag_matches_window 0 b i t \<and>
     (at_idx (validate b) i = Some True \<longrightarrow> (\<forall>tn. nearest_time b i = Some tn \<longrightarrow> \<bar>t - tn\<bar> < 1 / 10000 \<longrightarrow>
        clock_holds_sample b i)) \<and>
     at_idx (nearest_index b) i =
       (if next_sample_closer a i t then map_option (\<lambda>index. index + 1) (at_idx (nearest_index a) i)
        else at_idx (nearest_index a) i)"
  let ?E = "\<lambda>a b. clock_view a i = clock_view b i"
  have "?R s s'"
  proof (rule for_each_relate [where R = ?R and E = ?E, OF assms(1) [unfolded Clock_Update_def]])
    show "i \<in> set sat_ids" "distinct sat_ids"
      using assms(2,3) by (simp_all add: sat_ids_props)
    show "?R a b" if "Clock_Update_sat t i a = Some b" for a b
      using Clock_Update_sat_step [OF that] by simp
    show "?E a b" if "j \<noteq> i" "Clock_Update_sat t j a = Some b" for j a b
      using Clock_Update_sat_step [OF that(2)] that(1) by (blast intro: clock_frame_view)
    show "?R a c" if "?E a b" "?R b c" for a b c
      using that clock_view_cong [OF that(1)] by simp
    show "?R a c" if "?R a b" "?E b c" for a b c
      using that clock_view_cong [OF that(2)] by simp
  qed simp_all
  then show "flag_matches_window 0 s' i t"
    and "at_idx (validate s') i = Some True \<Longrightarrow> nearest_time s' i = Some tn \<Longrightarrow> \<bar>t - tn\<bar> < 1 / 10000
      \<Longrightarrow> clock_holds_sample s' i"
    and "at_idx (nearest_index s') i =
       (if next_sample_closer s i t then map_option (\<lambda>index. index + 1) (at_idx (nearest_index s) i)
        else at_idx (nearest_index s) i)"
    by simp_all
qed



subsection \<open>SetUp and Update of the small ephemeris\<close>

lemmas run_defs =
  Position_SetUp_def Position_SetUp_sat_def Position_Update_def Position_Update_sat_def
  Position_advance_def Position_evaluate_def Position_build_window_def Position_push_sample_def
  Clock_SetUp_def Clock_SetUp_sat_def Clock_Update_def Clock_Update_sat_def
  Clock_advance_def Clock_evaluate_def Clock_build_window_def Clock_push_sample_def
  invalidate_def at_idx_def set_at_def back_of_def front_of_def lower_bound_sorted
  window_offsets_def cdiv_def crem_def assign_def resize_def sat_ids_def sat_consts
  upto_rec1 Let_def

lemma example_position_run:
  "\<exists>p' p''. Position_SetUp example_position 10 1 = Some p' \<and> Position_Update p' 20 = Some p'' \<and>
     at_idx (validate p') 0 = Some True \<and> nearest_time p' 0 = Some 10 \<and>
     at_idx (nearest_index p') 0 = Some 1 \<and> next_sample_closer p' 0 20 \<and>
     at_idx (validate p'') 0 = Some True \<and> nearest_time p'' 0 = Some 20 \<and>
     at_idx (validate p') 1 = Some False \<and>
     at_idx (position_ecef_m p') 0 = Some (- 26000000, 0, 0) \<and>
     at_idx (position_eci_m p') 0 = Some (0, 26000000, 0)"
  by (simp add: run_defs example_position_def nearest_time_def next_sample_closer_def closer_in_def)


lemma example_clock_run:
  "\<exists>c' c''. Clock_SetUp example_clock 10 1 = Some c' \<and> Clock_Update c' 20 = Some c'' \<and>
     at_idx (validate c') 0 = Some True \<and> nearest_time c' 0 = Some 10 \<and>
     at_idx (nearest_index c') 0 = Some 1 \<and> next_sample_closer c' 0 20 \<and>
     at_idx (validate c'') 0 = Some True \<and> nearest_time c'' 0 = Some 20 \<and>
     at_idx (validate c') 1 = Some False \<and> at_idx (clock_offset_m c') 0 = Some 6"
  by (simp add: run_defs example_clock_def nearest_time_def next_sample_closer_def closer_in_def)

lemmas lagrange_defs = LagrangeInterpolation_def lagrange_weight_def


lemma example_update_run:
  "\<exists>c' c''. Clock_SetUp example_clock 10 1 = Some c' \<and>
     Clock_Update c' (599999 / 20000) = Some c'' \<and>
     at_idx (validate c'') 0 = Some True \<and> interpolation_number c'' = 3 \<and>
     at_idx (unix_time_list c'') 0 = Some [0, 10, 20, 30] \<and>
     at_idx (time_series_clock_offset_m c'') 0 = Some [5, 6, 7, 8] \<and>
     at_idx (nearest_index c'') 0 = Some 2 \<and> nearest_time c'' 0 = Some 20 \<and>
     at_idx (clock_offset_m c'') 0 = Some (1599999 / 200000)"
  by (simp add: run_defs lagrange_defs example_clock_def nearest_time_def)

lemma lower_bound_unsorted: "lower_bound [0, 10, 5, 20, 30] (200001 / 20000) = 3"
  by code_simp

lemma example_unsorted_run:
  "\<exists>c'. Clock_SetUp example_clock_unsorted (200001 / 20000) 1 = Some c' \<and>
     at_idx (validate c') 0 = Some True \<and> interpolation_number c' = 3 \<and>
     at_idx (unix_time_list c') 0 = Some [0, 10, 5, 20, 30] \<and>
     at_idx (time_series_clock_offset_m c') 0 = Some [5, 6, 7, 8, 9] \<and>
     at_idx (nearest_index c') 0 = Some 2 \<and> nearest_time c' 0 = Some 5 \<and>
     at_idx (clock_offset_m c') 0 = Some (89999950001 / 15000000000)"
  by (simp add: run_defs lagrange_defs lower_bound_unsorted example_clock_unsorted_def example_clock_def
      nearest_time_def)


subsection \<open>The claims about the interpolation windows\<close>

text \<open>
  C1. For the position track and for the clock track, after a \<open>SetUp\<close> or an \<open>Update\<close>
  that returns, the validity flag of every satellite is set and it is true exactly when
  (a) the window holds \<open>interpolation_number\<close> samples, (b) the window spans at most
  \<open>time_interval * (interpolation_number - 1 + 3)\<close> for the position and
  \<open>time_interval * (interpolation_number - 1)\<close> for the clock, plus 1e-4 s, and (c) the
  nearest sample is within \<open>time_interval\<close> of the query time. So a satellite flagged
  valid has (a), (b) and (c), and the flag is false as soon as one of them fails.
\<close>

theorem window_validity_invariant:
  assumes "0 \<le> i" and "i < all_sat_num"
  shows "(Position_SetUp p t w = Some p' \<longrightarrow> flag_matches_window 3 p' i t) \<and>
         (Position_Update p t = Some p' \<longrightarrow> flag_matches_window 3 p' i t) \<and>
         (Clock_SetUp c t w = Some c' \<longrightarrow> flag_matches_window 0 c' i t) \<and>
         (Clock_Update c t = Some c' \<longrightarrow> flag_matches_window 0 c' i t)"
  using Position_SetUp_result(1) [OF _ assms] Position_Update_result(1) [OF _ assms]
    Clock_SetUp_result(1) [OF _ assms] Clock_Update_result(1) [OF _ assms]
  by blast

theorem window_validity_invariant_witness:
  "\<exists>p' p'' c' c''.
     (0::int) \<le> 0 \<and> 0 < all_sat_num \<and>
     Position_SetUp example_position 10 1 = Some p' \<and> Position_Update p' 20 = Some p'' \<and>
     Clock_SetUp example_clock 10 1 = Some c' \<and> Clock_Update c' 20 = Some c'' \<and>
     at_idx (validate p') 0 = Some True \<and> flag_matches_window 3 p' 0 10 \<and>
     at_idx (validate p'') 0 = Some True \<and> flag_matches_window 3 p'' 0 20 \<and>
     at_idx (validate c') 0 = Some True \<and> flag_matches_window 0 c' 0 10 \<and>
     at_idx (validate c'') 0 = Some True \<and> flag_matches_window 0 c'' 0 20"
proof -
  from example_position_run obtain p' p'' where p: "Position_SetUp example_position 10 1 = Some p'"
    "Position_Update p' 20 = Some p''" "at_idx (validate p') 0 = Some True"
    "at_idx (validate p'') 0 = Some True"
    by blast
  from example_clock_run obtain c' c'' where c: "Clock_SetUp example_clock 10 1 = Some c'"
    "Clock_Update c' 20 = Some c''" "at_idx (validate c') 0 = Some True"
    "at_idx (validate c'') 0 = Some True"
    by blast
  have r: "(0::int) \<le> 0" "0 < all_sat_num"
    by (simp_all add: sat_consts)
  show ?thesis
    using p c r
      window_validity_invariant [OF r, of example_position 10 1 p' example_clock c']
      window_validity_invariant [OF r, of p' 20 _ p'' c' c'']
    by blast
qed

text \<open>
  C6. One \<open>Update\<close> of a track that returns leaves the cached nearest index of every
  satellite as it was, or advances it by exactly one; it advances exactly when the next
  sample exists and is strictly closer to the current time than the sample at the cached
  index. It never moves backward.
\<close>

theorem update_advances_by_at_most_one:
  assumes "0 \<le> i" and "i < all_sat_num"
  shows "(Position_Update p t = Some p' \<longrightarrow>
            at_idx (nearest_index p') i =
              (if next_sample_closer p i t then map_option (\<lambda>index. index + 1) (at_idx (nearest_index p) i)
               else at_idx (nearest_index p) i)) \<and>
         (Clock_Update c t = Some c' \<longrightarrow>
            at_idx (nearest_index c') i =
              (if next_sample_closer c i t then map_option (\<lambda>index. index + 1) (at_idx (nearest_index c) i)
               else at_idx (nearest_index c) i))"
  using Position_Update_result(3) [OF _ assms] Clock_Update_result(3) [OF _ assms]
  by blast

theorem update_advances_by_at_most_one_witness:
  "\<exists>p' p'' c' c''.
     (0::int) \<le> 0 \<and> 0 < all_sat_num \<and>
     Position_SetUp example_position 10 1 = Some p' \<and> Position_Update p' 20 = Some p'' \<and>
     Clock_SetUp example_clock 10 1 = Some c' \<and> Clock_Update c' 20 = Some c'' \<and>
     next_sample_closer p' 0 20 \<and> at_idx (nearest_index p') 0 = Some 1 \<and>
     at_idx (nearest_index p'') 0 = Some 2 \<and>
     next_sample_closer c' 0 20 \<and> at_idx (nearest_index c') 0 = Some 1 \<and>
     at_idx (nearest_index c'') 0 = Some 2"
proof -
  from example_position_run obtain p' p'' where p: "Position_SetUp example_position 10 1 = Some p'"
    "Position_Update p' 20 = Some p''" "next_sample_closer p' 0 20" "at_idx (nearest_index p') 0 = Some 1"
    by blast
  from example_clock_run obtain c' c'' where c: "Clock_SetUp example_clock 10 1 = Some c'"
    "Clock_Update c' 20 = Some c''" "next_sample_closer c' 0 20" "at_idx (nearest_index c') 0 = Some 1"
    by blast
  have r: "(0::int) \<le> 0" "0 < all_sat_num"
    by (simp_all add: sat_consts)
  have "at_idx (nearest_index p'') 0 = Some 2" "at_idx (nearest_index c'') 0 = Some 2"
    using update_advances_by_at_most_one [OF r, of p' 20 p'' c' c''] p c by simp_all
  with p c r show ?thesis by blast
qed




text \<open>
  The same happens after \<open>Update\<close>, also for an odd \<open>interpolation_number\<close>, since
  \<open>Update\<close> moves the cached index by one at most: from the index 1, the time 29.99995 s
  moves it to the sample at 20 s although the one at 30 s, with the clock offset 8, is
  within 1e-4 s. And it happens after \<open>SetUp\<close> with an odd \<open>interpolation_number\<close> when
  the time stamps are not in ascending order: the search ends at 20 s, the sample before it
  at 5 s is closer and is cached, and the stored sample at 10 s, with the clock offset 6,
  is missed.
\<close>

lemma exact_sample_interpolated_after_update:
  "\<exists>c' c''. Clock_SetUp example_clock 10 1 = Some c' \<and> Clock_Update c' (599999 / 20000) = Some c'' \<and>
     at_idx (validate c'') 0 = Some True \<and> odd (interpolation_number c'') \<and> series_sorted c'' 0 \<and>
     sample_within c'' 0 (599999 / 20000) \<and> \<not> cached_is_nearest c'' 0 (599999 / 20000) \<and>
     at_idx (time_series_clock_offset_m c'') 0 = Some [5, 6, 7, 8] \<and>
     at_idx (clock_offset_m c'') 0 = Some (1599999 / 200000)"
proof -
  from example_update_run obtain c' c'' where c: "Clock_SetUp example_clock 10 1 = Some c'"
    "Clock_Update c' (599999 / 20000) = Some c''"
    "at_idx (validate c'') 0 = Some True" "interpolation_number c'' = 3"
    "at_idx (unix_time_list c'') 0 = Some [0, 10, 20, 30]"
    "at_idx (time_series_clock_offset_m c'') 0 = Some [5, 6, 7, 8]"
    "at_idx (nearest_index c'') 0 = Some 2" "at_idx (clock_offset_m c'') 0 = Some (1599999 / 200000)"
    and nt: "nearest_time c'' 0 = Some 20"
    by blast
  have "odd (interpolation_number c'')" "series_sorted c'' 0" "sample_within c'' 0 (599999 / 20000)"
    "\<not> cached_is_nearest c'' 0 (599999 / 20000)"
    by (simp_all add: series_sorted_def sample_within_def cached_is_nearest_def c nt)
  with c show ?thesis
    by blast
qed

lemma exact_sample_interpolated_on_unsorted_series:
  "\<exists>c'. Clock_SetUp example_clock_unsorted (200001 / 20000) 1 = Some c' \<and>
     at_idx (validate c') 0 = Some True \<and> odd (interpolation_number c') \<and> \<not> series_sorted c' 0 \<and>
     sample_within c' 0 (200001 / 20000) \<and> \<not> cached_is_nearest c' 0 (200001 / 20000) \<and>
     at_idx (time_series_clock_offset_m c') 0 = Some [5, 6, 7, 8, 9] \<and>
     at_idx (clock_offset_m c') 0 = Some (89999950001 / 15000000000)"
proof -
  from example_unsorted_run obtain c' where c: "Clock_SetUp example_clock_unsorted (200001 / 20000) 1 = Some c'"
    "at_idx (validate c') 0 = Some True" "interpolation_number c' = 3"
    "at_idx (unix_time_list c') 0 = Some [0, 10, 5, 20, 30]"
    "at_idx (time_series_clock_offset_m c') 0 = Some [5, 6, 7, 8, 9]"
    "at_idx (nearest_index c') 0 = Some 2" "at_idx (clock_offset_m c') 0 = Some (89999950001 / 15000000000)"
    and nt: "nearest_time c' 0 = Some 5"
    by blast
  have "odd (interpolation_number c')" "\<not> series_sorted c' 0" "sample_within c' 0 (200001 / 20000)"
    "\<not> cached_is_nearest c' 0 (200001 / 20000)"
    by (simp_all add: series_sorted_def sample_within_def cached_is_nearest_def c nt)
  with c show ?thesis
    by blast
qed

subsection \<open>Validity and the degenerate results of the accessors\<close>

lemma at_idx_negative: "i < 0 \<Longrightarrow> at_idx xs i = None"
  by (simp add: at_idx_def)

lemma GetNumberOfSatellites_eq: "GetNumberOfSatellites s = all_sat_num"
  by (simp add: GetNumberOfSatellites_def info_GetNumberOfSatellites_def base_GetNumberOfSatellites_def)

lemma info_valid_iff:
  "info_GetWhetherValid t i = Some True \<longleftrightarrow>
     base_GetWhetherValid (position t) i = Some True \<and> base_GetWhetherValid (clock t) i = Some True"
  by (auto simp: info_GetWhetherValid_def and_also_def split: option.splits Option.bind_splits if_splits)

lemma valid_iff:
  "i < all_sat_num \<Longrightarrow> GetWhetherValid s i = Some True \<longleftrightarrow>
     info_GetWhetherValid (true_info s) i = Some True \<and> info_GetWhetherValid (estimate_info s) i = Some True"
  by (auto simp: GetWhetherValid_def GetNumberOfSatellites_eq and_also_def split: option.splits Option.bind_splits if_splits)

lemma wrong_or_not_valid_True:
  assumes "all_sat_num \<le> i \<or> GetWhetherValid s i = Some False"
  shows "wrong_or_not_valid s i = Some True"
  using assms by (auto simp: wrong_or_not_valid_def or_else_def GetNumberOfSatellites_eq)

lemma wrong_or_not_valid_negative: "i < 0 \<Longrightarrow> wrong_or_not_valid s i = None"
  by (simp add: wrong_or_not_valid_def or_else_def GetNumberOfSatellites_eq GetWhetherValid_def
      info_GetWhetherValid_def base_GetWhetherValid_def and_also_def at_idx_negative all_sat_num_def
      gps_sat_num_def glonass_sat_num_def galileo_sat_num_def beidou_sat_num_def qzss_sat_num_def)


lemma wrong_or_not_valid_large: "all_sat_num \<le> i \<Longrightarrow> wrong_or_not_valid s i = Some True"
  by (rule wrong_or_not_valid_True) simp

lemma example_satellites_facts:
  "GetWhetherValid example_satellites 0 = Some True"
  "GetWhetherValid example_satellites 1 = Some False"
  "info_GetWhetherValid example_info 0 = Some True"
  "info_GetSatellitePositionEcef (true_info example_satellites) 0 = Some (- 26000000, 0, 0)"
  "info_GetSatellitePositionEci (true_info example_satellites) 0 = Some (0, 26000000, 0)"
  "info_GetSatelliteClock (true_info example_satellites) 0 = Some 6"
proof -
  from example_position_run obtain p' where p: "Position_SetUp example_position 10 1 = Some p'"
    "at_idx (validate p') 0 = Some True" "at_idx (validate p') 1 = Some False"
    "at_idx (position_ecef_m p') 0 = Some (- 26000000, 0, 0)"
    "at_idx (position_eci_m p') 0 = Some (0, 26000000, 0)"
    by blast
  from example_clock_run obtain c' where c: "Clock_SetUp example_clock 10 1 = Some c'"
    "at_idx (validate c') 0 = Some True" "at_idx (validate c') 1 = Some False"
    "at_idx (clock_offset_m c') 0 = Some 6"
    by blast
  have info: "example_info = \<lparr>position = p', clock = c'\<rparr>"
    by (simp add: example_info_def info_SetUp_def p(1) c(1))
  show "info_GetWhetherValid example_info 0 = Some True"
    by (simp add: info info_GetWhetherValid_def base_GetWhetherValid_def and_also_def p c sat_consts)
  then show "GetWhetherValid example_satellites 0 = Some True"
    by (simp add: example_satellites_def GetWhetherValid_def GetNumberOfSatellites_eq and_also_def sat_consts)
  have "info_GetWhetherValid example_info 1 = Some False"
    by (simp add: info info_GetWhetherValid_def base_GetWhetherValid_def and_also_def p c sat_consts)
  then show "GetWhetherValid example_satellites 1 = Some False"
    by (simp add: example_satellites_def GetWhetherValid_def GetNumberOfSatellites_eq and_also_def sat_consts)
  show "info_GetSatellitePositionEcef (true_info example_satellites) 0 = Some (- 26000000, 0, 0)"
    "info_GetSatellitePositionEci (true_info example_satellites) 0 = Some (0, 26000000, 0)"
    "info_GetSatelliteClock (true_info example_satellites) 0 = Some 6"
    by (simp_all add: example_satellites_def info info_GetSatellitePositionEcef_def
        info_GetSatellitePositionEci_def info_GetSatelliteClock_def GetPosition_ecef_m_def
        GetPosition_eci_m_def GetSatClock_def p c sat_consts)
qed

text \<open>
  C3. For every satellite id below the total count, \<open>GnssSatellites::GetWhetherValid\<close>
  returns true if and only if the validity of the true track and the validity of the
  estimate track both return true, and the validity of a track returns true if and only
  if its position validity and its clock validity both return true.
\<close>

theorem validity_is_conjunction:
  assumes "i < all_sat_num"
  shows "(GetWhetherValid s i = Some True \<longleftrightarrow>
            info_GetWhetherValid (true_info s) i = Some True \<and>
            info_GetWhetherValid (estimate_info s) i = Some True)
       \<and> (info_GetWhetherValid t i = Some True \<longleftrightarrow>
            base_GetWhetherValid (position t) i = Some True \<and>
            base_GetWhetherValid (clock t) i = Some True)"
  using valid_iff [OF assms] info_valid_iff by simp

theorem validity_is_conjunction_witness:
  "(0::int) < all_sat_num \<and> GetWhetherValid example_satellites 0 = Some True \<and>
   info_GetWhetherValid (true_info example_satellites) 0 = Some True \<and>
   info_GetWhetherValid (estimate_info example_satellites) 0 = Some True \<and>
   base_GetWhetherValid (position example_info) 0 = Some True \<and>
   base_GetWhetherValid (clock example_info) 0 = Some True"
proof -
  have r: "(0::int) < all_sat_num"
    by (simp add: sat_consts)
  show ?thesis
    using validity_is_conjunction [OF r, of example_satellites example_info] example_satellites_facts(1,3) r
    by simp
qed

text \<open>
  C2. For every satellite id at or above the total count, and for every id whose combined
  validity is false, the two pseudo ranges are exactly 0 and the two carrier phases are
  exactly the pair (0, 0), for every receiver position, receiver clock and frequency; the
  four functions return (no exception).
\<close>

theorem observables_degenerate:
  assumes "all_sat_num \<le> i \<or> GetWhetherValid s i = Some False"
  shows "GetPseudoRangeECEF env s i r c f = Some 0
       \<and> GetPseudoRangeECI env s i r c f = Some 0
       \<and> GetCarrierPhaseECEF env s i r c f = Some (0, 0)
       \<and> GetCarrierPhaseECI env s i r c f = Some (0, 0)"
  using wrong_or_not_valid_True [OF assms]
  by (simp add: GetPseudoRangeECEF_def GetPseudoRangeECI_def GetCarrierPhaseECEF_def GetCarrierPhaseECI_def)

theorem observables_degenerate_witness:
  "all_sat_num \<le> 117 \<and> GetWhetherValid example_satellites 1 = Some False \<and>
   GetPseudoRangeECEF example_environment example_satellites 117 (7000000, 0, 0) 3 (157542 / 100) = Some 0 \<and>
   GetCarrierPhaseECI example_environment example_satellites 117 (7000000, 0, 0) 3 (157542 / 100) = Some (0, 0) \<and>
   GetPseudoRangeECI example_environment example_satellites 1 (7000000, 0, 0) 3 (157542 / 100) = Some 0 \<and>
   GetCarrierPhaseECEF example_environment example_satellites 1 (7000000, 0, 0) 3 (157542 / 100) = Some (0, 0)"
proof -
  have a: "all_sat_num \<le> 117 \<or> GetWhetherValid example_satellites 117 = Some False"
    by (simp add: sat_consts)
  have b: "all_sat_num \<le> 1 \<or> GetWhetherValid example_satellites 1 = Some False"
    by (simp add: example_satellites_facts(2))
  show ?thesis
    using observables_degenerate [OF a, of example_environment "(7000000, 0, 0)" 3 "157542 / 100"]
      observables_degenerate [OF b, of example_environment "(7000000, 0, 0)" 3 "157542 / 100"]
      example_satellites_facts(2)
    by (simp add: sat_consts)
qed

text \<open>
  C10. The per-satellite accessors test only \<open>id >= all_sat_num_\<close>. For every negative
  id the test passes and the first container access \<open>at(id)\<close> is out of range, so no
  accessor returns; the zero or invalid result is what they return for the ids at or above
  the total count.
\<close>

theorem negative_id_is_out_of_range:
  "(i < 0 \<longrightarrow>
      base_GetWhetherValid b i = None \<and> GetSatClock c i = None \<and>
      GetPosition_ecef_m p i = None \<and> GetPosition_eci_m p i = None \<and>
      GetWhetherValid s i = None \<and> GetSatellitePositionEcef s i = None \<and>
      GetSatellitePositionEci s i = None \<and> GetSatelliteClock s i = None \<and>
      GetPseudoRangeECEF env s i r rc f = None \<and> GetPseudoRangeECI env s i r rc f = None \<and>
      GetCarrierPhaseECEF env s i r rc f = None \<and> GetCarrierPhaseECI env s i r rc f = None \<and>
      AddIonosphericDelay env s i r f fl = None) \<and>
   (all_sat_num \<le> i \<longrightarrow>
      base_GetWhetherValid b i = Some False \<and> GetSatClock c i = Some 0 \<and>
      GetPosition_ecef_m p i = Some vec_zero \<and> GetPosition_eci_m p i = Some vec_zero \<and>
      GetWhetherValid s i = Some False \<and> GetSatellitePositionEcef s i = Some vec_zero \<and>
      GetSatellitePositionEci s i = Some vec_zero \<and> GetSatelliteClock s i = Some 0 \<and>
      GetPseudoRangeECEF env s i r rc f = Some 0 \<and> GetPseudoRangeECI env s i r rc f = Some 0 \<and>
      GetCarrierPhaseECEF env s i r rc f = Some (0, 0) \<and> GetCarrierPhaseECI env s i r rc f = Some (0, 0) \<and>
      AddIonosphericDelay env s i r f fl = Some 0)"
proof (intro conjI impI)
  assume neg: "i < 0"
  then have small: "\<not> all_sat_num \<le> i"
    by (simp add: sat_consts)
  note w = wrong_or_not_valid_negative [OF neg]
  show "base_GetWhetherValid b i = None" "GetSatClock c i = None"
    "GetPosition_ecef_m p i = None" "GetPosition_eci_m p i = None"
    using small by (simp_all add: base_GetWhetherValid_def GetSatClock_def GetPosition_ecef_m_def
        GetPosition_eci_m_def at_idx_negative [OF neg])
  then show "GetWhetherValid s i = None"
    using small by (simp add: GetWhetherValid_def GetNumberOfSatellites_eq info_GetWhetherValid_def
        base_GetWhetherValid_def and_also_def at_idx_negative [OF neg])
  show "GetSatellitePositionEcef s i = None" "GetSatellitePositionEci s i = None"
    "GetSatelliteClock s i = None"
    "GetPseudoRangeECEF env s i r rc f = None" "GetPseudoRangeECI env s i r rc f = None"
    "GetCarrierPhaseECEF env s i r rc f = None" "GetCarrierPhaseECI env s i r rc f = None"
    "AddIonosphericDelay env s i r f fl = None"
    by (simp_all add: GetSatellitePositionEcef_def GetSatellitePositionEci_def GetSatelliteClock_def
        GetPseudoRangeECEF_def GetPseudoRangeECI_def GetCarrierPhaseECEF_def GetCarrierPhaseECI_def
        AddIonosphericDelay_def w)
next
  assume large: "all_sat_num \<le> i"
  note w = wrong_or_not_valid_large [OF large]
  show "base_GetWhetherValid b i = Some False" "GetSatClock c i = Some 0"
    "GetPosition_ecef_m p i = Some vec_zero" "GetPosition_eci_m p i = Some vec_zero"
    "GetWhetherValid s i = Some False"
    using large by (simp_all add: base_GetWhetherValid_def GetSatClock_def GetPosition_ecef_m_def
        GetPosition_eci_m_def GetWhetherValid_def GetNumberOfSatellites_eq)
  show "GetSatellitePositionEcef s i = Some vec_zero" "GetSatellitePositionEci s i = Some vec_zero"
    "GetSatelliteClock s i = Some 0"
    "GetPseudoRangeECEF env s i r rc f = Some 0" "GetPseudoRangeECI env s i r rc f = Some 0"
    "GetCarrierPhaseECEF env s i r rc f = Some (0, 0)" "GetCarrierPhaseECI env s i r rc f = Some (0, 0)"
    "AddIonosphericDelay env s i r f fl = Some 0"
    by (simp_all add: GetSatellitePositionEcef_def GetSatellitePositionEci_def GetSatelliteClock_def
        GetPseudoRangeECEF_def GetPseudoRangeECI_def GetCarrierPhaseECEF_def GetCarrierPhaseECI_def
        AddIonosphericDelay_def w)
qed

theorem negative_id_is_out_of_range_witness:
  "(- 1 :: int) < 0 \<and> all_sat_num \<le> 117 \<and>
   base_GetWhetherValid (position example_info) (- 1) = None \<and>
   GetSatClock (clock example_info) (- 1) = None \<and>
   GetPosition_ecef_m (position example_info) (- 1) = None \<and>
   GetWhetherValid example_satellites (- 1) = None \<and>
   GetPseudoRangeECEF example_environment example_satellites (- 1) (7000000, 0, 0) 3 (157542 / 100) = None \<and>
   base_GetWhetherValid (position example_info) 117 = Some False \<and>
   GetSatClock (clock example_info) 117 = Some 0 \<and>
   GetPosition_ecef_m (position example_info) 117 = Some vec_zero \<and>
   GetWhetherValid example_satellites 117 = Some False \<and>
   GetPseudoRangeECEF example_environment example_satellites 117 (7000000, 0, 0) 3 (157542 / 100) = Some 0"
  using
    negative_id_is_out_of_range [of "- 1" "position example_info" "clock example_info"
      "position example_info" example_satellites example_environment "(7000000, 0, 0)" 3 "157542 / 100" kEcef]
    negative_id_is_out_of_range [of 117 "position example_info" "clock example_info"
      "position example_info" example_satellites example_environment "(7000000, 0, 0)" 3 "157542 / 100" kEcef]
  by (simp add: sat_consts)

subsection \<open>The ionospheric delay\<close>

lemma wrong_or_not_valid_False:
  "GetWhetherValid s i = Some True \<Longrightarrow> wrong_or_not_valid s i = Some False"
  by (auto simp: wrong_or_not_valid_def or_else_def GetWhetherValid_def split: if_splits)

lemma AddIonosphericDelay_valid:
  assumes "GetWhetherValid s i = Some True"
  shows "AddIonosphericDelay env s i r f fl =
     (if 1000 \<le> altitude_km env r then Some 0
      else map_option (\<lambda>g. specified_delay (altitude_km env r) (CalcAngleTwoVectors_rad r (vec_minus g r)) f)
             (true_position s i fl))"
  by (cases fl; cases "true_position s i fl")
     (simp_all add: AddIonosphericDelay_def wrong_or_not_valid_False [OF assms] Let_def
        true_position_def specified_delay_def)

lemma specified_delay_double:
  "specified_delay h a (2 * f) = specified_delay h a f / 4"
proof -
  have e: "(1500 / (2 * f))\<^sup>2 = (1500 / f)\<^sup>2 / 4"
    by (simp add: power_divide power_mult_distrib)
  show ?thesis
    unfolding specified_delay_def e by simp
qed

lemma specified_delay_decreasing:
  assumes "h1 < h2" and "0 < cos a" and "f \<noteq> 0"
  shows "specified_delay h2 a f < specified_delay h1 a f"
proof -
  have "0 < (1500 / f)\<^sup>2"
    using assms(3) by simp
  moreover have "20 * ((1000 - h2) / 1000) / cos a < 20 * ((1000 - h1) / 1000) / cos a"
    using assms(1,2) by (simp add: divide_strict_right_mono)
  ultimately show ?thesis
    unfolding specified_delay_def by (rule mult_strict_right_mono [rotated])
qed


lemma altitude_km_on_axis:
  "altitude_km env (x, 0, 0) = \<bar>x\<bar> / 1000 - earth_equatorial_radius_m env / 1000"
  by (simp add: altitude_km_def vec_nth_def Let_def)

lemma cos_angle_on_axis:
  assumes "x \<noteq> 0" and "y \<noteq> 0"
  shows "cos (CalcAngleTwoVectors_rad (x, 0, 0) (y, 0, 0)) = (if (0 < x) = (0 < y) then 1 else - 1)"
proof -
  have n: "CalcNorm (x, 0, 0) = \<bar>x\<bar>" "CalcNorm (y, 0, 0) = \<bar>y\<bar>" "InnerProduct (x, 0, 0) (y, 0, 0) = x * y"
    by (simp_all add: CalcNorm_def InnerProduct_def vec_nth_def flip: power2_eq_square)
  have "x * y / (\<bar>x\<bar> * \<bar>y\<bar>) = (if (0 < x) = (0 < y) then 1 else - 1)"
    using assms by (auto simp: abs_if)
  then show ?thesis
    unfolding CalcAngleTwoVectors_rad_def n by (simp add: cos_arccos)
qed

text \<open>
  C7, as amended. For a valid satellite and every receiver position, the ionospheric delay
  is exactly 0 when the altitude of the receiver (the norm of its position in km minus the
  equatorial radius in km) is at least 1000 km; below, it is 20 m scaled by
  \<open>(1000 - altitude) / 1000\<close>, divided by the cosine of the angle between the receiver
  position and the line of sight to the position of the satellite in the true track, times
  \<open>(1500 / frequency)\<close> squared. Doubling the frequency quarters the delay. For a
  frequency that is not zero, between two receiver positions below 1000 km that see the
  satellite under the same zenith angle, the delay is strictly smaller at the higher one
  when the cosine of that angle is positive.
\<close>

theorem ionospheric_delay_model:
  assumes "GetWhetherValid s i = Some True"
  shows "(1000 \<le> altitude_km env r \<longrightarrow> AddIonosphericDelay env s i r f fl = Some 0) \<and>
         (altitude_km env r < 1000 \<longrightarrow>
            AddIonosphericDelay env s i r f fl =
              map_option
                (\<lambda>g. specified_delay (altitude_km env r) (CalcAngleTwoVectors_rad r (vec_minus g r)) f)
                (true_position s i fl)) \<and>
         AddIonosphericDelay env s i r (2 * f) fl =
           map_option (\<lambda>d. d / 4) (AddIonosphericDelay env s i r f fl) \<and>
         (f \<noteq> 0 \<and> true_position s i fl = Some g \<and>
          altitude_km env r < altitude_km env r' \<and> altitude_km env r' < 1000 \<and>
          cos (CalcAngleTwoVectors_rad r' (vec_minus g r')) = cos (CalcAngleTwoVectors_rad r (vec_minus g r)) \<and>
          0 < cos (CalcAngleTwoVectors_rad r (vec_minus g r)) \<longrightarrow>
            (\<exists>d d'. AddIonosphericDelay env s i r f fl = Some d \<and>
                    AddIonosphericDelay env s i r' f fl = Some d' \<and> d' < d))"
proof -
  note d = AddIonosphericDelay_valid [OF assms, of env _ _ fl]
  have mono: "specified_delay (altitude_km env r') (CalcAngleTwoVectors_rad r' (vec_minus g r')) f
      < specified_delay (altitude_km env r) (CalcAngleTwoVectors_rad r (vec_minus g r)) f"
    if "f \<noteq> 0" "altitude_km env r < altitude_km env r'"
      "cos (CalcAngleTwoVectors_rad r' (vec_minus g r')) = cos (CalcAngleTwoVectors_rad r (vec_minus g r))"
      "0 < cos (CalcAngleTwoVectors_rad r (vec_minus g r))"
  proof -
    have "specified_delay (altitude_km env r') (CalcAngleTwoVectors_rad r' (vec_minus g r')) f
        = specified_delay (altitude_km env r') (CalcAngleTwoVectors_rad r (vec_minus g r)) f"
      by (simp add: specified_delay_def that(3))
    then show ?thesis
      using specified_delay_decreasing [OF that(2,4,1)] by simp
  qed
  have double: "AddIonosphericDelay env s i r (2 * f) fl =
      map_option (\<lambda>d. d / 4) (AddIonosphericDelay env s i r f fl)"
    by (cases "true_position s i fl") (simp_all add: d specified_delay_double)
  show ?thesis
    using mono double by (auto simp: d)
qed

lemma example_true_position:
  "true_position example_satellites 0 kEcef = Some (- 26000000, 0, 0)"
  by (simp add: true_position_def example_satellites_facts)

lemma example_altitudes:
  "altitude_km example_environment (7000000, 0, 0) = 6218634 / 10000"
  "altitude_km example_environment (7100000, 0, 0) = 7218634 / 10000"
  "altitude_km example_environment (- 7000000, 0, 0) = 6218634 / 10000"
  "altitude_km example_environment (- 7100000, 0, 0) = 7218634 / 10000"
  "altitude_km example_environment (8000000, 0, 0) = 16218634 / 10000"
  by (simp_all add: altitude_km_on_axis example_environment_def)

lemma example_cosines:
  "cos (CalcAngleTwoVectors_rad (7000000, 0, 0) (vec_minus (- 26000000, 0, 0) (7000000, 0, 0))) = - 1"
  "cos (CalcAngleTwoVectors_rad (7100000, 0, 0) (vec_minus (- 26000000, 0, 0) (7100000, 0, 0))) = - 1"
  "cos (CalcAngleTwoVectors_rad (- 7000000, 0, 0) (vec_minus (- 26000000, 0, 0) (- 7000000, 0, 0))) = 1"
  "cos (CalcAngleTwoVectors_rad (- 7100000, 0, 0) (vec_minus (- 26000000, 0, 0) (- 7100000, 0, 0))) = 1"
  by (simp_all add: vec_minus_def vec_nth_def cos_angle_on_axis)

theorem ionospheric_delay_model_witness:
  "GetWhetherValid example_satellites 0 = Some True \<and>
   true_position example_satellites 0 kEcef = Some (- 26000000, 0, 0) \<and>
   1000 \<le> altitude_km example_environment (8000000, 0, 0) \<and>
   AddIonosphericDelay example_environment example_satellites 0 (8000000, 0, 0) 1500 kEcef = Some 0 \<and>
   altitude_km example_environment (- 7000000, 0, 0) < altitude_km example_environment (- 7100000, 0, 0) \<and>
   altitude_km example_environment (- 7100000, 0, 0) < 1000 \<and>
   0 < cos (CalcAngleTwoVectors_rad (- 7000000, 0, 0) (vec_minus (- 26000000, 0, 0) (- 7000000, 0, 0))) \<and>
   AddIonosphericDelay example_environment example_satellites 0 (- 7000000, 0, 0) 1500 kEcef
     = Some (7562732 / 1000000) \<and>
   AddIonosphericDelay example_environment example_satellites 0 (- 7100000, 0, 0) 1500 kEcef
     = Some (5562732 / 1000000) \<and>
   AddIonosphericDelay example_environment example_satellites 0 (- 7000000, 0, 0) (2 * 1500) kEcef
     = Some (7562732 / 1000000 / 4) \<and>
   (\<exists>d d'. AddIonosphericDelay example_environment example_satellites 0 (- 7000000, 0, 0) 1500 kEcef = Some d \<and>
      AddIonosphericDelay example_environment example_satellites 0 (- 7100000, 0, 0) 1500 kEcef = Some d' \<and>
      d' < d)"
proof -
  note m = ionospheric_delay_model [OF example_satellites_facts(1),
      where env = example_environment and f = 1500 and fl = kEcef]
  have "AddIonosphericDelay example_environment example_satellites 0 (8000000, 0, 0) 1500 kEcef = Some 0"
    using m [where r = "(8000000, 0, 0)"] by (simp add: example_altitudes)
  moreover have a: "AddIonosphericDelay example_environment example_satellites 0 (- 7000000, 0, 0) 1500 kEcef
      = Some (7562732 / 1000000)"
    using m [where r = "(- 7000000, 0, 0)"]
    by (simp add: example_altitudes example_true_position specified_delay_def example_cosines)
  moreover have "AddIonosphericDelay example_environment example_satellites 0 (- 7100000, 0, 0) 1500 kEcef
      = Some (5562732 / 1000000)"
    using m [where r = "(- 7100000, 0, 0)"]
    by (simp add: example_altitudes example_true_position specified_delay_def example_cosines)
  moreover have "AddIonosphericDelay example_environment example_satellites 0 (- 7000000, 0, 0) (2 * 1500) kEcef
      = Some (7562732 / 1000000 / 4)"
    using m [where r = "(- 7000000, 0, 0)"] a by simp
  moreover have "\<exists>d d'. AddIonosphericDelay example_environment example_satellites 0 (- 7000000, 0, 0) 1500 kEcef = Some d \<and>
      AddIonosphericDelay example_environment example_satellites 0 (- 7100000, 0, 0) 1500 kEcef = Some d' \<and>
      d' < d"
    using m [where r = "(- 7000000, 0, 0)" and r' = "(- 7100000, 0, 0)" and g = "(- 26000000, 0, 0)",
        THEN conjunct2, THEN conjunct2, THEN conjunct2]
    by (simp add: example_altitudes example_true_position example_cosines)
  ultimately show ?thesis
    by (simp add: example_satellites_facts(1) example_true_position example_altitudes example_cosines)
qed

text \<open>
  C7 as stated fails where the satellite is below the horizontal plane of the receiver: the
  cosine is negative, so is the delay, and it grows with the altitude. Here the satellite
  is on the other side of the Earth, and the receiver climbs from 621.9 km to 721.9 km.
\<close>

theorem ionospheric_delay_increases_below_horizon:
  "GetWhetherValid example_satellites 0 = Some True \<and>
   0 \<le> altitude_km example_environment (7000000, 0, 0) \<and>
   altitude_km example_environment (7000000, 0, 0) < altitude_km example_environment (7100000, 0, 0) \<and>
   altitude_km example_environment (7100000, 0, 0) < 1000 \<and>
   AddIonosphericDelay example_environment example_satellites 0 (7000000, 0, 0) 1500 kEcef
     = Some (- (7562732 / 1000000)) \<and>
   AddIonosphericDelay example_environment example_satellites 0 (7100000, 0, 0) 1500 kEcef
     = Some (- (5562732 / 1000000)) \<and>
   the (AddIonosphericDelay example_environment example_satellites 0 (7000000, 0, 0) 1500 kEcef)
     < the (AddIonosphericDelay example_environment example_satellites 0 (7100000, 0, 0) 1500 kEcef)"
  by (simp add: example_satellites_facts(1) example_altitudes
      AddIonosphericDelay_valid [OF example_satellites_facts(1)] example_true_position
      specified_delay_def example_cosines)

text \<open>
  The frequency of the last sentence must not be zero. A zero frequency gives the same delay
  at every altitude: the division by zero is infinite in the doubles of the source and 0 in
  the reals of this model, where the satellite above the receiver at 621.9 km and at
  721.9 km has the delay 0.
\<close>

lemma ionospheric_delay_at_zero_frequency:
  "0 < cos (CalcAngleTwoVectors_rad (- 7000000, 0, 0) (vec_minus (- 26000000, 0, 0) (- 7000000, 0, 0))) \<and>
   AddIonosphericDelay example_environment example_satellites 0 (- 7000000, 0, 0) 0 kEcef = Some 0 \<and>
   AddIonosphericDelay example_environment example_satellites 0 (- 7100000, 0, 0) 0 kEcef = Some 0"
  by (simp add: example_satellites_facts(1) example_altitudes
      AddIonosphericDelay_valid [OF example_satellites_facts(1)] example_true_position
      specified_delay_def example_cosines)

subsection \<open>Ingestion: the overwrite rule\<close>







subsection \<open>Ingestion: increasing time stamps\<close>




























subsection \<open>Ingestion: one more line\<close>

























subsection \<open>Ingestion of the example pages\<close>

lemma GetIndexFromId_G01: "GetIndexFromId ''PG01'' = Some 0" "GetIndexFromId ''G01'' = Some 0"
  by code_simp+

lemmas ingest_defs =
  Position_Initialize_def Position_read_page_def Position_read_line_def Position_store_def
  Clock_Initialize_sp3_def Clock_read_page_def Clock_read_line_def Clock_store_def
  Clock_Initialize_clk_def Clock_read_clk_page_def Clock_clk_lines_def Clock_read_clk_line_def
  Clock_clk_period_def Clock_store_clk_def
  read_coordinates_def nan99_def GetIndexFromId_G01 at_idx_def set_at_def set_back_def resize_def
  crem_def cdiv_def vec_nth_def sat_consts Let_def upt_rec_numeral
  fresh_position_def fresh_clock_def one_sample_position_def one_sample_clock_def
  example_page_1_def example_page_2_def example_clk_page_def example_modes_def example_environment_def











lemma not_times_increasing:
  "at_idx (unix_time_list s) i = Some utl \<Longrightarrow> \<not> sorted_wrt (<) utl \<Longrightarrow> \<not> times_increasing s"
  by (auto simp: times_increasing_def list_all_iff at_idx_def split: if_splits)


text \<open>
  The lists that the object holds before the ingestion must be increasing themselves: an
  object that holds 200, 300, 100, 200 for G01 keeps them when a page of a later epoch is
  ingested.
\<close>

lemma ingestion_keeps_disorder:
  "list_all (list_all (\<lambda>x. x \<le> 300)) (unix_time_list disordered_position) \<and>
   sorted (300 # file_epochs [example_page_3]) \<and>
   (\<exists>p' a b. Position_Initialize disordered_position [example_page_3] 9 = Some (p', a, b) \<and>
      at_idx (unix_time_list p') 0 = Some [200, 300, 100, 200, 500] \<and> \<not> times_increasing p')"
proof -
  have e: "\<exists>p' a b. Position_Initialize disordered_position [example_page_3] 9 = Some (p', a, b) \<and>
     at_idx (unix_time_list p') 0 = Some [200, 300, 100, 200, 500]"
    by (simp add: ingest_defs disordered_position_def example_page_3_def)
  then obtain p' a b where p: "Position_Initialize disordered_position [example_page_3] 9 = Some (p', a, b)"
    "at_idx (unix_time_list p') 0 = Some [200, 300, 100, 200, 500]"
    by blast
  have "\<not> sorted_wrt (<) [200, 300, 100, 200, 500 :: real]"
    by simp
  then have "\<not> times_increasing p'"
    using not_times_increasing [OF p(2)] by blast
  moreover have "list_all (list_all (\<lambda>x. x \<le> 300)) (unix_time_list disordered_position)"
    "sorted (300 # file_epochs [example_page_3])"
    by (simp_all add: disordered_position_def fresh_position_def file_epochs_def example_page_3_def)
  ultimately show ?thesis
    using p by blast
qed

end
